theory Spec2Isabelle
  imports Main "HOL-Library.Sublist"
begin

section \<open>IT job portal backend: in-memory tables and request handlers\<close>

text \<open>
  The backend keeps three process-wide dictionaries (\<open>users\<close>, \<open>jobs\<close>,
  \<open>applications\<close>) and two integer counters (\<open>last_job_id\<close>, \<open>last_app_id\<close>).
  Every handler is modelled as a function from the state before the call to a pair of
  its outcome (the raised HTTP error or the returned value) and the state after the
  call, so that what a handler has written before it raises stays visible.
\<close>

subsection \<open>Python dictionaries\<close>

text \<open>
  A Python \<open>dict\<close> iterates in insertion order; assigning to a key that is present
  keeps its position, assigning to a new key appends it, \<open>del\<close> removes it.
  The tables are association lists with exactly these operations.
\<close>

type_synonym ('k, 'v) dict = "('k \<times> 'v) list"

definition dict_get :: "('k, 'v) dict \<Rightarrow> 'k \<Rightarrow> 'v option" where
  "dict_get d k = map_of d k"

definition dict_contains :: "('k, 'v) dict \<Rightarrow> 'k \<Rightarrow> bool" where
  "dict_contains d k = (dict_get d k \<noteq> None)"

fun dict_set :: "('k, 'v) dict \<Rightarrow> 'k \<Rightarrow> 'v \<Rightarrow> ('k, 'v) dict" where
  "dict_set [] k v = [(k, v)]"
| "dict_set ((k', v') # d) k v =
     (if k' = k then (k, v) # d else (k', v') # dict_set d k v)"

definition dict_del :: "('k, 'v) dict \<Rightarrow> 'k \<Rightarrow> ('k, 'v) dict" where
  "dict_del d k = filter (\<lambda>kv. fst kv \<noteq> k) d"

definition dict_keys :: "('k, 'v) dict \<Rightarrow> 'k list" where
  "dict_keys d = map fst d"

definition dict_values :: "('k, 'v) dict \<Rightarrow> 'v list" where
  "dict_values d = map snd d"

subsection \<open>Strings and library functions\<close>

text \<open>
  A Python \<open>str\<close> is held as the list of its UTF-8 bytes. Equality of two strings is
  equality of their bytes, and \<open>a in b\<close> is the contiguous-substring test on them, since no
  encoded character starts inside another one.
\<close>

definition str_in :: "string \<Rightarrow> string \<Rightarrow> bool" where
  "str_in a b = sublist a b"

text \<open>
  Three functions the program calls are not part of it and depend on Unicode tables or on
  the email-validator package. The model takes them as given, whatever they compute:
  \<^item> \<open>str_lower\<close> is \<open>str.lower()\<close>;
  \<^item> \<open>str_len\<close> is \<open>len\<close> on a \<open>str\<close>, the number of its code points, which
    \<open>min_length\<close> compares;
  \<^item> \<open>EmailStr_validate\<close> is the validation of a field of type \<open>EmailStr\<close>: \<open>None\<close>
    when the string is refused, otherwise the string the field then holds, which the
    library may have normalised.
\<close>

record library =
  str_lower :: "string \<Rightarrow> string"
  str_len :: "string \<Rightarrow> nat"
  EmailStr_validate :: "string \<Rightarrow> string option"

subsection \<open>Models (api/main.py)\<close>

text \<open>Times are whole seconds since the epoch.\<close>

type_synonym datetime = int

record UserBase =
  ub_email :: string
  ub_name :: string
  ub_role :: string

record JobSeekerRegister =
  js_email :: string
  js_password :: string
  js_name :: string
  js_resume :: "string option"
  js_role :: string

record EmployerRegister =
  emp_email :: string
  emp_password :: string
  emp_name :: string
  emp_company_name :: string
  emp_role :: string

record UserLogin =
  login_email :: string
  login_password :: string
  login_role :: string

text \<open>
  The form of \<open>POST /auth/token\<close> (\<open>OAuth2PasswordRequestForm\<close>): \<open>scopes\<close> is the
  \<open>scope\<close> field split at whitespace, empty when the field is absent.
\<close>

record OAuth2PasswordRequestForm =
  form_username :: string
  form_password :: string
  form_scopes :: "string list"

text \<open>
  A stored user is the dictionary \<open>data.dict()\<close> of a registration. The key
  \<open>company_name\<close> exists only for employers: \<open>u_company_name = None\<close> stands for its
  absence.
\<close>

record user =
  u_email :: string
  u_password :: string
  u_name :: string
  u_role :: string
  u_resume :: "string option"
  u_company_name :: "string option"

record JobBase =
  title :: string
  description :: string
  company :: string
  location :: string
  skills :: "string list"
  salary_min :: "int option"
  salary_max :: "int option"

record Job = JobBase +
  Job_id :: int
  posted_by :: string
  created_at :: datetime

type_synonym JobCreate = JobBase

record ApplicationBase =
  job_id :: int
  seeker_email :: string
  cover_letter :: "string option"

record Application = ApplicationBase +
  Application_id :: int
  status :: string
  applied_at :: datetime

record ApplicationReview =
  review_status :: string

record Token =
  access_token_email :: "string option"
  access_token_role :: "string option"
  access_token_exp :: datetime
  access_token_signed :: bool

text \<open>
  \<open>Token\<close> stands for the encoded JWT string: its claims, and whether its signature
  verifies under \<open>JWT_SECRET\<close>. A client may present any token at all.
\<close>

subsection \<open>Field constraints\<close>

text \<open>
  What the framework checks on a parsed body before the handler sees it, giving \<open>None\<close>
  for a body it refuses and otherwise the model object the handler receives: \<open>email\<close>
  and \<open>seeker_email\<close> are of type \<open>EmailStr\<close>, \<open>password\<close> has \<open>min_length=6\<close>,
  \<open>role\<close> of a registration is a constant (\<open>const=True\<close>), and the status of a review
  must match the regular expression \<open>^(reviewed|rejected|accepted)$\<close>, where Python's
  \<open>$\<close> also matches just before a final newline.
\<close>

definition JobSeekerRegister_validate ::
  "library \<Rightarrow> JobSeekerRegister \<Rightarrow> JobSeekerRegister option"
where
  "JobSeekerRegister_validate lib data =
     (case EmailStr_validate lib (js_email data) of
        None \<Rightarrow> None
      | Some email \<Rightarrow>
          if 6 \<le> str_len lib (js_password data) \<and> js_role data = ''jobseeker''
          then Some (data\<lparr>js_email := email\<rparr>) else None)"

definition EmployerRegister_validate ::
  "library \<Rightarrow> EmployerRegister \<Rightarrow> EmployerRegister option"
where
  "EmployerRegister_validate lib data =
     (case EmailStr_validate lib (emp_email data) of
        None \<Rightarrow> None
      | Some email \<Rightarrow>
          if 6 \<le> str_len lib (emp_password data) \<and> emp_role data = ''employer''
          then Some (data\<lparr>emp_email := email\<rparr>) else None)"

definition UserLogin_validate :: "library \<Rightarrow> UserLogin \<Rightarrow> UserLogin option" where
  "UserLogin_validate lib data =
     (case EmailStr_validate lib (login_email data) of
        None \<Rightarrow> None
      | Some email \<Rightarrow> Some (data\<lparr>login_email := email\<rparr>))"

definition ApplicationBase_validate ::
  "library \<Rightarrow> ApplicationBase \<Rightarrow> ApplicationBase option"
where
  "ApplicationBase_validate lib application =
     (case EmailStr_validate lib (seeker_email application) of
        None \<Rightarrow> None
      | Some email \<Rightarrow> Some (application\<lparr>seeker_email := email\<rparr>))"

definition review_status_regex :: "string \<Rightarrow> bool" where
  "review_status_regex s =
     (let alternatives = [''reviewed'', ''rejected'', ''accepted'']
      in s \<in> set alternatives \<or> s \<in> set (map (\<lambda>a. a @ [CHR 0x0A]) alternatives))"

definition ApplicationReview_valid :: "ApplicationReview \<Rightarrow> bool" where
  "ApplicationReview_valid review = review_status_regex (review_status review)"

subsection \<open>State and errors\<close>

record state =
  users :: "(string, user) dict"
  jobs :: "(int, Job) dict"
  applications :: "(int, Application) dict"
  last_job_id :: int
  last_app_id :: int

definition init_state :: state where
  "init_state = \<lparr>users = [], jobs = [], applications = [], last_job_id = 0, last_app_id = 0\<rparr>"

datatype http_error =
    HTTPException (status_code: nat) (detail: string)
  | RequestValidationError

type_synonym 'a outcome = "(http_error + 'a) \<times> state"

definition ACCESS_TOKEN_EXPIRE_MINUTES :: int where
  "ACCESS_TOKEN_EXPIRE_MINUTES = 60"

subsection \<open>Authentication (AUTH/JWT)\<close>

definition create_access_token :: "datetime \<Rightarrow> string \<Rightarrow> string \<Rightarrow> Token" where
  "create_access_token now email role =
     \<lparr>access_token_email = Some email, access_token_role = Some role,
      access_token_exp = now + ACCESS_TOKEN_EXPIRE_MINUTES * 60,
      access_token_signed = True\<rparr>"

text \<open>
  \<open>jwt.decode\<close> raises \<open>JWTError\<close> (here \<open>None\<close>) when the signature does not verify
  or the token has expired.
\<close>

definition jwt_decode :: "datetime \<Rightarrow> Token \<Rightarrow> Token option" where
  "jwt_decode now token =
     (if access_token_signed token \<and> now \<le> access_token_exp token then Some token else None)"

definition authenticate_user :: "state \<Rightarrow> string \<Rightarrow> string \<Rightarrow> string \<Rightarrow> user option" where
  "authenticate_user st email password role =
     (case dict_get (users st) email of
        None \<Rightarrow> None
      | Some user \<Rightarrow>
          if u_password user \<noteq> password \<or> u_role user \<noteq> role then None else Some user)"

definition credentials_exception :: http_error where
  "credentials_exception = HTTPException 401 ''Could not validate credentials''"

definition get_current_user :: "state \<Rightarrow> datetime \<Rightarrow> Token \<Rightarrow> http_error + user" where
  "get_current_user st now token =
     (case jwt_decode now token of
        None \<Rightarrow> Inl credentials_exception
      | Some payload \<Rightarrow>
          (case access_token_email payload of
             None \<Rightarrow> Inl credentials_exception
           | Some email \<Rightarrow>
               if access_token_role payload \<notin> set [Some ''jobseeker'', Some ''employer'']
               then Inl credentials_exception
               else (case dict_get (users st) email of
                       None \<Rightarrow> Inl credentials_exception
                     | Some user \<Rightarrow>
                         if Some (u_role user) \<noteq> access_token_role payload
                         then Inl credentials_exception
                         else Inr user)))"

definition register_job_seeker :: "state \<Rightarrow> JobSeekerRegister \<Rightarrow> UserBase outcome" where
  "register_job_seeker st data =
     (if dict_contains (users st) (js_email data)
      then (Inl (HTTPException 400 ''Email already registered''), st)
      else (Inr \<lparr>ub_email = js_email data, ub_name = js_name data, ub_role = ''jobseeker''\<rparr>,
            st\<lparr>users := dict_set (users st) (js_email data)
                  \<lparr>u_email = js_email data, u_password = js_password data,
                   u_name = js_name data, u_role = js_role data,
                   u_resume = js_resume data, u_company_name = None\<rparr>\<rparr>))"

definition register_employer :: "state \<Rightarrow> EmployerRegister \<Rightarrow> UserBase outcome" where
  "register_employer st data =
     (if dict_contains (users st) (emp_email data)
      then (Inl (HTTPException 400 ''Email already registered''), st)
      else (Inr \<lparr>ub_email = emp_email data, ub_name = emp_name data, ub_role = ''employer''\<rparr>,
            st\<lparr>users := dict_set (users st) (emp_email data)
                  \<lparr>u_email = emp_email data, u_password = emp_password data,
                   u_name = emp_name data, u_role = emp_role data,
                   u_resume = None, u_company_name = Some (emp_company_name data)\<rparr>\<rparr>))"

definition login :: "state \<Rightarrow> datetime \<Rightarrow> OAuth2PasswordRequestForm \<Rightarrow> Token outcome" where
  "login st now form_data =
     (case authenticate_user st (form_username form_data) (form_password form_data)
             (case form_scopes form_data of [] \<Rightarrow> ''jobseeker'' | scope # _ \<Rightarrow> scope) of
        None \<Rightarrow> (Inl (HTTPException 401 ''Incorrect email, password, or role''), st)
      | Some user \<Rightarrow> (Inr (create_access_token now (u_email user) (u_role user)), st))"

definition login_alt :: "state \<Rightarrow> datetime \<Rightarrow> UserLogin \<Rightarrow> Token outcome" where
  "login_alt st now data =
     (case authenticate_user st (login_email data) (login_password data) (login_role data) of
        None \<Rightarrow> (Inl (HTTPException 401 ''Incorrect email, password, or role''), st)
      | Some user \<Rightarrow> (Inr (create_access_token now (u_email user) (u_role user)), st))"

subsection \<open>Jobs\<close>

definition post_job :: "state \<Rightarrow> datetime \<Rightarrow> JobCreate \<Rightarrow> user \<Rightarrow> Job outcome" where
  "post_job st now job current_user =
     (if u_role current_user \<noteq> ''employer''
      then (Inl (HTTPException 403 ''Only employers can post jobs''), st)
      else
        let st1 = st\<lparr>last_job_id := last_job_id st + 1\<rparr>;
            new_job = \<lparr>title = title job, description = description job,
                       company = (case u_company_name current_user of
                                    Some company_name \<Rightarrow> company_name
                                  | None \<Rightarrow> company job),
                       location = location job, skills = skills job,
                       salary_min = salary_min job, salary_max = salary_max job,
                       Job_id = last_job_id st1, posted_by = u_email current_user,
                       created_at = now\<rparr>
        in (Inr new_job, st1\<lparr>jobs := dict_set (jobs st1) (last_job_id st1) new_job\<rparr>))"

text \<open>
  One pass of the loop body of \<open>list_jobs\<close>, with \<open>lower\<close> for \<open>str.lower()\<close>.
  \<open>if query:\<close> is false for \<open>None\<close> and for the empty string, \<open>if skills:\<close> for
  \<open>None\<close> and for the empty list.
\<close>

definition job_match ::
  "(string \<Rightarrow> string) \<Rightarrow> string option \<Rightarrow> string option \<Rightarrow> string list option \<Rightarrow>
   Job \<Rightarrow> bool"
where
  "job_match lower query loc skills_filter job =
     (let match = True;
          match = (case query of
                     None \<Rightarrow> match
                   | Some q \<Rightarrow>
                       if q \<noteq> [] \<and> \<not> str_in (lower q) (lower (title job) @ lower (description job))
                       then False else match);
          match = (case loc of
                     None \<Rightarrow> match
                   | Some l \<Rightarrow>
                       if l \<noteq> [] \<and> lower l \<noteq> lower (location job) then False else match);
          match = (case skills_filter of
                     None \<Rightarrow> match
                   | Some sks \<Rightarrow>
                       if sks \<noteq> [] \<and>
                          \<not> list_all (\<lambda>skill. lower skill \<in> set (map lower (skills job))) sks
                       then False else match)
      in match)"

fun list_jobs_loop ::
  "(string \<Rightarrow> string) \<Rightarrow> string option \<Rightarrow> string option \<Rightarrow> string list option \<Rightarrow>
   Job list \<Rightarrow> Job list \<Rightarrow> Job list"
where
  "list_jobs_loop lower query loc skills_filter [] filtered = filtered"
| "list_jobs_loop lower query loc skills_filter (job # rest) filtered =
     list_jobs_loop lower query loc skills_filter rest
       (if job_match lower query loc skills_filter job then filtered @ [job] else filtered)"

definition list_jobs ::
  "(string \<Rightarrow> string) \<Rightarrow> state \<Rightarrow> string option \<Rightarrow> string option \<Rightarrow> string list option \<Rightarrow>
   Job list outcome"
where
  "list_jobs lower st query loc skills_filter =
     (Inr (list_jobs_loop lower query loc skills_filter (dict_values (jobs st)) []), st)"

definition get_job :: "state \<Rightarrow> int \<Rightarrow> Job outcome" where
  "get_job st jid =
     (case dict_get (jobs st) jid of
        None \<Rightarrow> (Inl (HTTPException 404 ''Job not found''), st)
      | Some job \<Rightarrow> (Inr job, st))"

definition update_job :: "state \<Rightarrow> int \<Rightarrow> JobCreate \<Rightarrow> user \<Rightarrow> Job outcome" where
  "update_job st jid upd current_user =
     (case dict_get (jobs st) jid of
        None \<Rightarrow> (Inl (HTTPException 404 ''Job not found''), st)
      | Some job \<Rightarrow>
          if posted_by job \<noteq> u_email current_user
          then (Inl (HTTPException 403 ''Cannot update job not posted by you''), st)
          else
            let updated = job\<lparr>title := title upd, description := description upd,
                              company := company upd, location := location upd,
                              skills := skills upd, salary_min := salary_min upd,
                              salary_max := salary_max upd\<rparr>
            in (Inr updated, st\<lparr>jobs := dict_set (jobs st) jid updated\<rparr>))"

definition delete_job :: "state \<Rightarrow> int \<Rightarrow> user \<Rightarrow> unit outcome" where
  "delete_job st jid current_user =
     (case dict_get (jobs st) jid of
        None \<Rightarrow> (Inl (HTTPException 404 ''Job not found''), st)
      | Some job \<Rightarrow>
          if posted_by job \<noteq> u_email current_user
          then (Inl (HTTPException 403 ''Cannot delete job not posted by you''), st)
          else (Inr (), st\<lparr>jobs := dict_del (jobs st) jid\<rparr>))"

subsection \<open>Applications\<close>

text \<open>The scan of \<open>apply_for_job\<close> over \<open>applications.values()\<close>, raising at the first hit.\<close>

fun already_applied :: "int \<Rightarrow> string \<Rightarrow> Application list \<Rightarrow> bool" where
  "already_applied jid email [] = False"
| "already_applied jid email (app_item # rest) =
     (if job_id app_item = jid \<and> seeker_email app_item = email then True
      else already_applied jid email rest)"

definition apply_for_job :: "state \<Rightarrow> datetime \<Rightarrow> ApplicationBase \<Rightarrow> user \<Rightarrow> Application outcome" where
  "apply_for_job st now application current_user =
     (if u_role current_user \<noteq> ''jobseeker''
      then (Inl (HTTPException 403 ''Only job seekers can apply''), st)
      else if seeker_email application \<noteq> u_email current_user
      then (Inl (HTTPException 403 ''You can only apply as yourself''), st)
      else (case dict_get (jobs st) (job_id application) of
              None \<Rightarrow> (Inl (HTTPException 404 ''Job not found''), st)
            | Some job \<Rightarrow>
                if already_applied (job_id application) (u_email current_user)
                     (dict_values (applications st))
                then (Inl (HTTPException 400 ''Already applied to this job''), st)
                else
                  let st1 = st\<lparr>last_app_id := last_app_id st + 1\<rparr>;
                      new_app = \<lparr>job_id = job_id application,
                                 seeker_email = u_email current_user,
                                 cover_letter = cover_letter application,
                                 Application_id = last_app_id st1,
                                 status = ''pending'', applied_at = now\<rparr>
                  in (Inr new_app,
                      st1\<lparr>applications :=
                            dict_set (applications st1) (last_app_id st1) new_app\<rparr>)))"

definition my_applications :: "state \<Rightarrow> user \<Rightarrow> Application list outcome" where
  "my_applications st current_user =
     (if u_role current_user \<noteq> ''jobseeker''
      then (Inl (HTTPException 403 ''Only job seekers can view their applications''), st)
      else (Inr (filter (\<lambda>a. seeker_email a = u_email current_user)
                   (dict_values (applications st))), st))"

definition applications_for_job :: "state \<Rightarrow> int \<Rightarrow> user \<Rightarrow> Application list outcome" where
  "applications_for_job st jid current_user =
     (case dict_get (jobs st) jid of
        None \<Rightarrow> (Inl (HTTPException 404 ''Job not found''), st)
      | Some job \<Rightarrow>
          if posted_by job \<noteq> u_email current_user
          then (Inl (HTTPException 403
                  ''Only the employer who posted the job can review applications''), st)
          else (Inr (filter (\<lambda>a. job_id a = jid) (dict_values (applications st))), st))"

definition review_application ::
  "state \<Rightarrow> int \<Rightarrow> ApplicationReview \<Rightarrow> user \<Rightarrow> Application outcome"
where
  "review_application st app_id review current_user =
     (case dict_get (applications st) app_id of
        None \<Rightarrow> (Inl (HTTPException 404 ''Application not found''), st)
      | Some app_item \<Rightarrow>
          (case dict_get (jobs st) (job_id app_item) of
             None \<Rightarrow>
               (Inl (HTTPException 403 ''Can only review applications for your jobs''), st)
           | Some job \<Rightarrow>
               if posted_by job \<noteq> u_email current_user
               then (Inl (HTTPException 403 ''Can only review applications for your jobs''), st)
               else
                 let app_item1 = app_item\<lparr>status := review_status review\<rparr>
                 in (Inr app_item1,
                     st\<lparr>applications := dict_set (applications st) app_id app_item1\<rparr>)))"

subsection \<open>Dashboards\<close>

record JobseekerDashboard =
  jd_user :: UserBase
  jd_num_applications :: int
  jd_applied_jobs :: "Job list"
  jd_applications :: "Application list"

record EmployerDashboard =
  ed_user :: UserBase
  ed_num_jobs_posted :: int
  ed_jobs :: "Job list"
  ed_num_applications :: int
  ed_applications :: "Application list"

definition jobseeker_dashboard :: "state \<Rightarrow> user \<Rightarrow> JobseekerDashboard outcome" where
  "jobseeker_dashboard st current_user =
     (if u_role current_user \<noteq> ''jobseeker''
      then (Inl (HTTPException 403 ''Job seekers only''), st)
      else
        let my_apps = filter (\<lambda>a. seeker_email a = u_email current_user)
                        (dict_values (applications st));
            applied_job_ids = map job_id my_apps;
            applied_jobs = List.map_filter (dict_get (jobs st)) applied_job_ids
        in (Inr \<lparr>jd_user = \<lparr>ub_email = u_email current_user, ub_name = u_name current_user,
                              ub_role = ''jobseeker''\<rparr>,
                  jd_num_applications = int (length my_apps),
                  jd_applied_jobs = applied_jobs,
                  jd_applications = my_apps\<rparr>, st))"

definition employer_dashboard :: "state \<Rightarrow> user \<Rightarrow> EmployerDashboard outcome" where
  "employer_dashboard st current_user =
     (if u_role current_user \<noteq> ''employer''
      then (Inl (HTTPException 403 ''Employers only''), st)
      else
        let posted_jobs = filter (\<lambda>job. posted_by job = u_email current_user)
                            (dict_values (jobs st));
            job_ids = map Job_id posted_jobs;
            all_apps = filter (\<lambda>a. job_id a \<in> set job_ids) (dict_values (applications st))
        in (Inr \<lparr>ed_user = \<lparr>ub_email = u_email current_user, ub_name = u_name current_user,
                              ub_role = ''employer''\<rparr>,
                  ed_num_jobs_posted = int (length posted_jobs),
                  ed_jobs = posted_jobs,
                  ed_num_applications = int (length all_apps),
                  ed_applications = all_apps\<rparr>, st))"

subsection \<open>Requests\<close>

text \<open>
  A request names its route and carries the bearer token and the parsed body. The
  framework first resolves \<open>Depends(get_current_user)\<close>, whose exception ends the
  request, then reports a body that violates a field constraint (status 422), and only
  then calls the handler with the validated model object.
\<close>

datatype request =
    RegisterJobSeeker JobSeekerRegister
  | RegisterEmployer EmployerRegister
  | Login OAuth2PasswordRequestForm
  | LoginAlt UserLogin
  | PostJob Token JobCreate
  | ListJobs "string option" "string option" "string list option"
  | GetJob int
  | UpdateJob Token int JobCreate
  | DeleteJob Token int
  | ApplyForJob Token ApplicationBase
  | MyApplications Token
  | ApplicationsForJob Token int
  | ReviewApplication Token int ApplicationReview
  | JobseekerDashboardReq Token
  | EmployerDashboardReq Token

datatype response =
    RespUser UserBase
  | RespToken Token
  | RespJob Job
  | RespJobs "Job list"
  | RespNoContent
  | RespApplication Application
  | RespApplications "Application list"
  | RespJobseekerDashboard JobseekerDashboard
  | RespEmployerDashboard EmployerDashboard

definition respond :: "('a \<Rightarrow> response) \<Rightarrow> 'a outcome \<Rightarrow> response outcome" where
  "respond f out = (case fst out of Inl e \<Rightarrow> (Inl e, snd out) | Inr v \<Rightarrow> (Inr (f v), snd out))"

definition depends_current_user ::
  "state \<Rightarrow> datetime \<Rightarrow> Token \<Rightarrow> (user \<Rightarrow> response outcome) \<Rightarrow> response outcome"
where
  "depends_current_user st now token handler =
     (case get_current_user st now token of
        Inl e \<Rightarrow> (Inl e, st)
      | Inr current_user \<Rightarrow> handler current_user)"

definition handle :: "library \<Rightarrow> state \<Rightarrow> datetime \<Rightarrow> request \<Rightarrow> response outcome" where
  "handle lib st now req =
     (case req of
        RegisterJobSeeker body \<Rightarrow>
          (case JobSeekerRegister_validate lib body of
             None \<Rightarrow> (Inl RequestValidationError, st)
           | Some data \<Rightarrow> respond RespUser (register_job_seeker st data))
      | RegisterEmployer body \<Rightarrow>
          (case EmployerRegister_validate lib body of
             None \<Rightarrow> (Inl RequestValidationError, st)
           | Some data \<Rightarrow> respond RespUser (register_employer st data))
      | Login form_data \<Rightarrow> respond RespToken (login st now form_data)
      | LoginAlt body \<Rightarrow>
          (case UserLogin_validate lib body of
             None \<Rightarrow> (Inl RequestValidationError, st)
           | Some data \<Rightarrow> respond RespToken (login_alt st now data))
      | PostJob token job \<Rightarrow>
          depends_current_user st now token
            (\<lambda>current_user. respond RespJob (post_job st now job current_user))
      | ListJobs query loc skills_filter \<Rightarrow>
          respond RespJobs (list_jobs (str_lower lib) st query loc skills_filter)
      | GetJob jid \<Rightarrow> respond RespJob (get_job st jid)
      | UpdateJob token jid upd \<Rightarrow>
          depends_current_user st now token
            (\<lambda>current_user. respond RespJob (update_job st jid upd current_user))
      | DeleteJob token jid \<Rightarrow>
          depends_current_user st now token
            (\<lambda>current_user. respond (\<lambda>_. RespNoContent) (delete_job st jid current_user))
      | ApplyForJob token body \<Rightarrow>
          depends_current_user st now token
            (\<lambda>current_user.
               case ApplicationBase_validate lib body of
                 None \<Rightarrow> (Inl RequestValidationError, st)
               | Some application \<Rightarrow>
                   respond RespApplication (apply_for_job st now application current_user))
      | MyApplications token \<Rightarrow>
          depends_current_user st now token
            (\<lambda>current_user. respond RespApplications (my_applications st current_user))
      | ApplicationsForJob token jid \<Rightarrow>
          depends_current_user st now token
            (\<lambda>current_user.
               respond RespApplications (applications_for_job st jid current_user))
      | ReviewApplication token app_id review \<Rightarrow>
          depends_current_user st now token
            (\<lambda>current_user.
               if ApplicationReview_valid review
               then respond RespApplication (review_application st app_id review current_user)
               else (Inl RequestValidationError, st))
      | JobseekerDashboardReq token \<Rightarrow>
          depends_current_user st now token
            (\<lambda>current_user.
               respond RespJobseekerDashboard (jobseeker_dashboard st current_user))
      | EmployerDashboardReq token \<Rightarrow>
          depends_current_user st now token
            (\<lambda>current_user.
               respond RespEmployerDashboard (employer_dashboard st current_user)))"

text \<open>The process serves requests one after the other, starting from empty tables.\<close>

fun run :: "library \<Rightarrow> state \<Rightarrow> (datetime \<times> request) list \<Rightarrow> state" where
  "run lib st [] = st"
| "run lib st ((now, req) # rest) = run lib (snd (handle lib st now req)) rest"

text \<open>
  A state is reachable when some sequence of requests leads to it from the empty tables,
  whatever the library functions are.
\<close>

definition reachable :: "state \<Rightarrow> bool" where
  "reachable st = (\<exists>lib reqs. st = run lib init_state reqs)"

subsection \<open>Outcomes, the invariant of the tables, and example values\<close>

definition fails_with :: "'a outcome \<Rightarrow> nat \<Rightarrow> bool" where
  "fails_with out code =
     (case fst out of Inl (HTTPException c d) \<Rightarrow> c = code | _ \<Rightarrow> False)"

definition succeeds :: "'a outcome \<Rightarrow> bool" where
  "succeeds out = (case fst out of Inr v \<Rightarrow> True | Inl e \<Rightarrow> False)"

text \<open>
  What every state the process can be in satisfies: a stored user sits under its own
  email; job and application keys are distinct, equal to the stored id and at most the
  counter; the poster of a stored job is a registered employer.
\<close>

definition wf :: "state \<Rightarrow> bool" where
  "wf st =
     ((\<forall>k u. dict_get (users st) k = Some u \<longrightarrow> u_email u = k) \<and>
      distinct (dict_keys (jobs st)) \<and>
      (\<forall>k j. (k, j) \<in> set (jobs st) \<longrightarrow>
         Job_id j = k \<and> k \<le> last_job_id st \<and>
         (\<exists>u. dict_get (users st) (posted_by j) = Some u \<and> u_role u = ''employer'')) \<and>
      distinct (dict_keys (applications st)) \<and>
      (\<forall>k a. (k, a) \<in> set (applications st) \<longrightarrow>
         Application_id a = k \<and> k \<le> last_app_id st))"

text \<open>
  Example values: a small portal with one employer, one job seeker, one job and one
  application. All its strings are ASCII, where \<open>str.lower()\<close> maps \<open>A\<close> to \<open>Z\<close> onto
  \<open>a\<close> to \<open>z\<close> and \<open>len\<close> counts bytes; the example library computes just that, and
  knows the two addresses of the examples as emails.
\<close>

definition ascii_lower_char :: "char \<Rightarrow> char" where
  "ascii_lower_char c =
     (case map_of (zip ''ABCDEFGHIJKLMNOPQRSTUVWXYZ'' ''abcdefghijklmnopqrstuvwxyz'') c of
        None \<Rightarrow> c
      | Some l \<Rightarrow> l)"

definition ascii_lower :: "string \<Rightarrow> string" where
  "ascii_lower s = map ascii_lower_char s"

definition ex_EmailStr :: "string \<Rightarrow> string option" where
  "ex_EmailStr s = (if s \<in> set [''bo@acme.io'', ''ann@mail.io''] then Some s else None)"

definition ex_library :: library where
  "ex_library = \<lparr>str_lower = ascii_lower, str_len = length, EmailStr_validate = ex_EmailStr\<rparr>"

definition ex_employer_reg :: EmployerRegister where
  "ex_employer_reg = \<lparr>emp_email = ''bo@acme.io'', emp_password = ''secret'', emp_name = ''Bo'',
      emp_company_name = ''Acme'', emp_role = ''employer''\<rparr>"

definition ex_seeker_reg :: JobSeekerRegister where
  "ex_seeker_reg = \<lparr>js_email = ''ann@mail.io'', js_password = ''hunter2'', js_name = ''Ann'',
      js_resume = None, js_role = ''jobseeker''\<rparr>"

definition ex_job_create :: JobCreate where
  "ex_job_create = \<lparr>title = ''Backend Engineer'', description = ''Go and Rust'',
      company = ''Initech'', location = ''Remote'', skills = [''go'', ''rust''],
      salary_min = None, salary_max = Some 100\<rparr>"

definition ex_employer :: user where
  "ex_employer = \<lparr>u_email = ''bo@acme.io'', u_password = ''secret'', u_name = ''Bo'',
      u_role = ''employer'', u_resume = None, u_company_name = Some ''Acme''\<rparr>"

definition ex_seeker :: user where
  "ex_seeker = \<lparr>u_email = ''ann@mail.io'', u_password = ''hunter2'', u_name = ''Ann'',
      u_role = ''jobseeker'', u_resume = None, u_company_name = None\<rparr>"

definition ex_job :: Job where
  "ex_job = \<lparr>title = ''Backend Engineer'', description = ''Go and Rust'',
      company = ''Acme'', location = ''Remote'', skills = [''go'', ''rust''],
      salary_min = None, salary_max = Some 100, Job_id = 1, posted_by = ''bo@acme.io'',
      created_at = 1\<rparr>"

definition ex_application :: Application where
  "ex_application = \<lparr>job_id = 1, seeker_email = ''ann@mail.io'', cover_letter = None,
      Application_id = 1, status = ''pending'', applied_at = 2\<rparr>"

definition ex_state :: state where
  "ex_state = \<lparr>users = [(''bo@acme.io'', ex_employer), (''ann@mail.io'', ex_seeker)],
      jobs = [(1, ex_job)], applications = [(1, ex_application)],
      last_job_id = 1, last_app_id = 1\<rparr>"

definition ex_employer_token :: Token where
  "ex_employer_token = create_access_token 0 ''bo@acme.io'' ''employer''"

definition ex_seeker_token :: Token where
  "ex_seeker_token = create_access_token 0 ''ann@mail.io'' ''jobseeker''"

definition ex_requests :: "(datetime \<times> request) list" where
  "ex_requests =
     [(0, RegisterEmployer ex_employer_reg),
      (0, RegisterJobSeeker ex_seeker_reg),
      (1, PostJob ex_employer_token ex_job_create),
      (2, ApplyForJob ex_seeker_token
            \<lparr>job_id = 1, seeker_email = ''ann@mail.io'', cover_letter = None\<rparr>)]"

definition ex_apply :: ApplicationBase where
  "ex_apply = \<lparr>job_id = 1, seeker_email = ''ann@mail.io'', cover_letter = None\<rparr>"

definition ex_state_before_apply :: state where
  "ex_state_before_apply = ex_state\<lparr>applications := [], last_app_id := 0\<rparr>"

definition ex_review :: "string \<Rightarrow> ApplicationReview" where
  "ex_review s = \<lparr>review_status = s\<rparr>"

definition ex_state_job_deleted :: state where
  "ex_state_job_deleted = ex_state\<lparr>jobs := []\<rparr>"

definition ex_update :: JobCreate where
  "ex_update = \<lparr>title = ''Platform Engineer'', description = ''Rust'',
      company = ''Initech'', location = ''Berlin'', skills = [''rust''],
      salary_min = Some 50, salary_max = None\<rparr>"

definition ex_job_updated :: Job where
  "ex_job_updated = \<lparr>title = ''Platform Engineer'', description = ''Rust'',
      company = ''Initech'', location = ''Berlin'', skills = [''rust''],
      salary_min = Some 50, salary_max = None, Job_id = 1, posted_by = ''bo@acme.io'',
      created_at = 1\<rparr>"

definition ex_expired_token :: Token where
  "ex_expired_token = ex_seeker_token\<lparr>access_token_exp := 3\<rparr>"

definition ex_bad_email_reg :: JobSeekerRegister where
  "ex_bad_email_reg = \<lparr>js_email = ''not-an-email'', js_password = ''hunter2'',
      js_name = ''Eve'', js_resume = None, js_role = ''jobseeker''\<rparr>"

definition ex_short_password_reg :: EmployerRegister where
  "ex_short_password_reg = \<lparr>emp_email = ''bo@acme.io'', emp_password = ''abc'',
      emp_name = ''Bo'', emp_company_name = ''Acme'', emp_role = ''employer''\<rparr>"

definition ex_form :: "string list \<Rightarrow> OAuth2PasswordRequestForm" where
  "ex_form scopes =
     \<lparr>form_username = ''bo@acme.io'', form_password = ''secret'', form_scopes = scopes\<rparr>"

definition ex_login :: UserLogin where
  "ex_login = \<lparr>login_email = ''bo@acme.io'', login_password = ''secret'',
       login_role = ''employer''\<rparr>"

definition ex_job2 :: Job where
  "ex_job2 = ex_job\<lparr>Job_id := 2, created_at := 4\<rparr>"

definition ex_state_reposted :: state where
  "ex_state_reposted = ex_state\<lparr>jobs := [(2, ex_job2)], last_job_id := 2\<rparr>"

definition ex_application2 :: Application where
  "ex_application2 = \<lparr>job_id = 2, seeker_email = ''ann@mail.io'', cover_letter = None,
      Application_id = 2, status = ''pending'', applied_at = 5\<rparr>"

definition ex_more_requests :: "(datetime \<times> request) list" where
  "ex_more_requests =
     [(3, DeleteJob ex_employer_token 1), (4, PostJob ex_employer_token ex_job_create)]"




text \<open>
  The filter as the specification words it, to be compared with \<open>job_match\<close>: a job
  satisfies all provided filters when the lowered query is a substring of the lowered
  title followed by the lowered description, the location equals the stored one up to
  case, and every requested skill equals some stored skill up to case. A filter is
  provided when it is not \<open>None\<close>; \<open>lower\<close> stands for \<open>str.lower()\<close>.
\<close>

definition satisfies_provided_filters ::
  "(string \<Rightarrow> string) \<Rightarrow> string option \<Rightarrow> string option \<Rightarrow> string list option \<Rightarrow>
   Job \<Rightarrow> bool"
where
  "satisfies_provided_filters lower query loc sks job =
     ((case query of
         None \<Rightarrow> True
       | Some q \<Rightarrow> str_in (lower q) (lower (title job) @ lower (description job))) \<and>
      (case loc of
         None \<Rightarrow> True
       | Some l \<Rightarrow> lower l = lower (location job)) \<and>
      (case sks of
         None \<Rightarrow> True
       | Some requested \<Rightarrow>
           (\<forall>skill \<in> set requested. \<exists>stored \<in> set (skills job). lower skill = lower stored)))"

section \<open>Dictionaries and the invariant\<close>

lemma dict_get_set: "dict_get (dict_set d k v) k' = (if k' = k then Some v else dict_get d k')"
  by (induction d k v rule: dict_set.induct) (auto simp: dict_get_def)

lemma dict_keys_set:
  "dict_keys (dict_set d k v) = (if k \<in> set (dict_keys d) then dict_keys d else dict_keys d @ [k])"
  by (induction d k v rule: dict_set.induct) (auto simp: dict_keys_def)

lemma dict_set_fresh: "k \<notin> set (dict_keys d) \<Longrightarrow> dict_set d k v = d @ [(k, v)]"
  by (induction d k v rule: dict_set.induct) (auto simp: dict_keys_def)

lemma set_dict_set: "set (dict_set d k v) \<subseteq> insert (k, v) (set d)"
  by (induction d k v rule: dict_set.induct) auto

lemma distinct_dict_set: "distinct (dict_keys d) \<Longrightarrow> distinct (dict_keys (dict_set d k v))"
  by (simp add: dict_keys_set)


lemma set_dict_del: "set (dict_del d k) \<subseteq> set d"
  by (auto simp: dict_del_def)

lemma distinct_dict_del: "distinct (dict_keys d) \<Longrightarrow> distinct (dict_keys (dict_del d k))"
  by (simp add: dict_keys_def dict_del_def distinct_map_filter)

lemma dict_get_SomeD: "dict_get d k = Some v \<Longrightarrow> (k, v) \<in> set d"
  by (simp add: dict_get_def map_of_SomeD)

lemma dict_get_None_iff: "dict_get d k = None \<longleftrightarrow> k \<notin> set (dict_keys d)"
  by (simp add: dict_get_def dict_keys_def map_of_eq_None_iff)

lemma dict_get_is_Some: "distinct (dict_keys d) \<Longrightarrow> (k, v) \<in> set d \<Longrightarrow> dict_get d k = Some v"
  by (simp add: dict_get_def dict_keys_def)

lemma get_current_user_Inr:
  assumes "get_current_user st now token = Inr cu"
  shows "\<exists>email. dict_get (users st) email = Some cu \<and> access_token_email token = Some email"
    and "access_token_role token = Some (u_role cu)"
    and "u_role cu = ''jobseeker'' \<or> u_role cu = ''employer''"
  using assms
  by (auto simp: get_current_user_def jwt_decode_def split: option.splits if_splits)

lemma get_current_user_wf:
  assumes "wf st" "get_current_user st now token = Inr cu"
  shows "dict_get (users st) (u_email cu) = Some cu"
  using assms get_current_user_Inr(1)[OF assms(2)] by (auto simp: wf_def)

lemma wf_usersD: "wf st \<Longrightarrow> dict_get (users st) k = Some u \<Longrightarrow> u_email u = k"
  by (simp add: wf_def)

lemma wf_jobsD:
  assumes "wf st" "(k, j) \<in> set (jobs st)"
  shows "Job_id j = k" "k \<le> last_job_id st"
    "\<exists>u. dict_get (users st) (posted_by j) = Some u \<and> u_role u = ''employer''"
  using assms unfolding wf_def by blast+

lemma wf_appsD:
  assumes "wf st" "(k, a) \<in> set (applications st)"
  shows "Application_id a = k" "k \<le> last_app_id st"
  using assms unfolding wf_def by blast+

lemma wf_distinct: "wf st \<Longrightarrow> distinct (dict_keys (jobs st)) \<and> distinct (dict_keys (applications st))"
  by (simp add: wf_def)

lemma wfI:
  assumes "\<And>k u. dict_get (users st) k = Some u \<Longrightarrow> u_email u = k"
    and "distinct (dict_keys (jobs st))"
    and "\<And>k j. (k, j) \<in> set (jobs st) \<Longrightarrow> Job_id j = k \<and> k \<le> last_job_id st \<and>
         (\<exists>u. dict_get (users st) (posted_by j) = Some u \<and> u_role u = ''employer'')"
    and "distinct (dict_keys (applications st))"
    and "\<And>k a. (k, a) \<in> set (applications st) \<Longrightarrow> Application_id a = k \<and> k \<le> last_app_id st"
  shows "wf st"
  unfolding wf_def using assms by blast

lemma job_counter_fresh: "wf st \<Longrightarrow> last_job_id st + 1 \<notin> set (dict_keys (jobs st))"
proof
  assume w: "wf st" and "last_job_id st + 1 \<in> set (dict_keys (jobs st))"
  then obtain j where "(last_job_id st + 1, j) \<in> set (jobs st)"
    by (auto simp: dict_keys_def)
  from wf_jobsD(2)[OF w this] show False by simp
qed

lemma app_counter_fresh: "wf st \<Longrightarrow> last_app_id st + 1 \<notin> set (dict_keys (applications st))"
proof
  assume w: "wf st" and "last_app_id st + 1 \<in> set (dict_keys (applications st))"
  then obtain a where "(last_app_id st + 1, a) \<in> set (applications st)"
    by (auto simp: dict_keys_def)
  from wf_appsD(2)[OF w this] show False by simp
qed

lemma wf_init: "wf init_state"
  by (simp add: wf_def init_state_def dict_keys_def dict_get_def)

lemma wf_users_add:
  assumes w: "wf st" and none: "dict_get (users st) k = None" and e: "u_email u = k"
  shows "wf (st\<lparr>users := dict_set (users st) k u\<rparr>)"
proof (rule wfI)
  fix k' u'
  assume "dict_get (users (st\<lparr>users := dict_set (users st) k u\<rparr>)) k' = Some u'"
  then show "u_email u' = k'"
    using e wf_usersD[OF w, of k' u'] by (auto simp: dict_get_set split: if_splits)
next
  fix k' j
  assume "(k', j) \<in> set (jobs (st\<lparr>users := dict_set (users st) k u\<rparr>))"
  then have mem: "(k', j) \<in> set (jobs st)" by simp
  from wf_jobsD(3)[OF w mem] obtain e where
    u: "dict_get (users st) (posted_by j) = Some e" "u_role e = ''employer''" by blast
  then have "posted_by j \<noteq> k" using none by auto
  then have "dict_get (dict_set (users st) k u) (posted_by j) = Some e"
    using u by (simp add: dict_get_set)
  then show "Job_id j = k' \<and> k' \<le> last_job_id (st\<lparr>users := dict_set (users st) k u\<rparr>) \<and>
         (\<exists>x. dict_get (users (st\<lparr>users := dict_set (users st) k u\<rparr>)) (posted_by j) = Some x \<and>
              u_role x = ''employer'')"
    using wf_jobsD(1,2)[OF w mem] u by simp
next
  fix k' a
  assume "(k', a) \<in> set (applications (st\<lparr>users := dict_set (users st) k u\<rparr>))"
  then have mem: "(k', a) \<in> set (applications st)" by simp
  show "Application_id a = k' \<and> k' \<le> last_app_id (st\<lparr>users := dict_set (users st) k u\<rparr>)"
    using wf_appsD[OF w mem] by simp
qed (use wf_distinct[OF w] in simp_all)

lemma wf_jobs_add:
  assumes w: "wf st"
    and u: "dict_get (users st) (posted_by j) = Some u" "u_role u = ''employer''"
    and i: "Job_id j = last_job_id st + 1"
  shows "wf (st\<lparr>last_job_id := last_job_id st + 1,
                 jobs := dict_set (jobs st) (last_job_id st + 1) j\<rparr>)"
proof (rule wfI)
  fix k j'
  assume "(k, j') \<in> set (jobs (st\<lparr>last_job_id := last_job_id st + 1,
                 jobs := dict_set (jobs st) (last_job_id st + 1) j\<rparr>))"
  then have "(k, j') = (last_job_id st + 1, j) \<or> (k, j') \<in> set (jobs st)"
    using set_dict_set[of "jobs st" "last_job_id st + 1" j] by auto
  then show "Job_id j' = k \<and>
       k \<le> last_job_id (st\<lparr>last_job_id := last_job_id st + 1,
                 jobs := dict_set (jobs st) (last_job_id st + 1) j\<rparr>) \<and>
       (\<exists>x. dict_get (users (st\<lparr>last_job_id := last_job_id st + 1,
                 jobs := dict_set (jobs st) (last_job_id st + 1) j\<rparr>)) (posted_by j') = Some x \<and>
            u_role x = ''employer'')"
  proof
    assume "(k, j') = (last_job_id st + 1, j)"
    then show ?thesis using u i by auto
  next
    assume mem: "(k, j') \<in> set (jobs st)"
    show ?thesis using wf_jobsD[OF w mem] by simp
  qed
next
  fix k a
  assume "(k, a) \<in> set (applications (st\<lparr>last_job_id := last_job_id st + 1,
                 jobs := dict_set (jobs st) (last_job_id st + 1) j\<rparr>))"
  then have mem: "(k, a) \<in> set (applications st)" by simp
  show "Application_id a = k \<and> k \<le> last_app_id (st\<lparr>last_job_id := last_job_id st + 1,
                 jobs := dict_set (jobs st) (last_job_id st + 1) j\<rparr>)"
    using wf_appsD[OF w mem] by simp
next
  fix k x
  assume "dict_get (users (st\<lparr>last_job_id := last_job_id st + 1,
                 jobs := dict_set (jobs st) (last_job_id st + 1) j\<rparr>)) k = Some x"
  then show "u_email x = k" using wf_usersD[OF w, of k x] by simp
qed (use wf_distinct[OF w] in \<open>simp_all add: distinct_dict_set\<close>)

lemma wf_jobs_upd:
  assumes w: "wf st" and old: "(jid, old) \<in> set (jobs st)"
    and j: "Job_id j = Job_id old" "posted_by j = posted_by old"
  shows "wf (st\<lparr>jobs := dict_set (jobs st) jid j\<rparr>)"
proof (rule wfI)
  fix k j'
  assume "(k, j') \<in> set (jobs (st\<lparr>jobs := dict_set (jobs st) jid j\<rparr>))"
  then have "(k, j') = (jid, j) \<or> (k, j') \<in> set (jobs st)"
    using set_dict_set[of "jobs st" jid j] by auto
  then show "Job_id j' = k \<and> k \<le> last_job_id (st\<lparr>jobs := dict_set (jobs st) jid j\<rparr>) \<and>
       (\<exists>x. dict_get (users (st\<lparr>jobs := dict_set (jobs st) jid j\<rparr>)) (posted_by j') = Some x \<and>
            u_role x = ''employer'')"
  proof
    assume "(k, j') = (jid, j)"
    then show ?thesis using wf_jobsD[OF w old] j by auto
  next
    assume mem: "(k, j') \<in> set (jobs st)"
    show ?thesis using wf_jobsD[OF w mem] by simp
  qed
next
  fix k a
  assume "(k, a) \<in> set (applications (st\<lparr>jobs := dict_set (jobs st) jid j\<rparr>))"
  then have mem: "(k, a) \<in> set (applications st)" by simp
  show "Application_id a = k \<and> k \<le> last_app_id (st\<lparr>jobs := dict_set (jobs st) jid j\<rparr>)"
    using wf_appsD[OF w mem] by simp
next
  fix k x
  assume "dict_get (users (st\<lparr>jobs := dict_set (jobs st) jid j\<rparr>)) k = Some x"
  then show "u_email x = k" using wf_usersD[OF w, of k x] by simp
qed (use wf_distinct[OF w] in \<open>simp_all add: distinct_dict_set\<close>)

lemma wf_jobs_del:
  assumes w: "wf st"
  shows "wf (st\<lparr>jobs := dict_del (jobs st) jid\<rparr>)"
proof (rule wfI)
  fix k j'
  assume "(k, j') \<in> set (jobs (st\<lparr>jobs := dict_del (jobs st) jid\<rparr>))"
  then have mem: "(k, j') \<in> set (jobs st)"
    using set_dict_del[of "jobs st" jid] by auto
  show "Job_id j' = k \<and> k \<le> last_job_id (st\<lparr>jobs := dict_del (jobs st) jid\<rparr>) \<and>
       (\<exists>x. dict_get (users (st\<lparr>jobs := dict_del (jobs st) jid\<rparr>)) (posted_by j') = Some x \<and>
            u_role x = ''employer'')"
    using wf_jobsD[OF w mem] by simp
next
  fix k a
  assume "(k, a) \<in> set (applications (st\<lparr>jobs := dict_del (jobs st) jid\<rparr>))"
  then have mem: "(k, a) \<in> set (applications st)" by simp
  show "Application_id a = k \<and> k \<le> last_app_id (st\<lparr>jobs := dict_del (jobs st) jid\<rparr>)"
    using wf_appsD[OF w mem] by simp
next
  fix k x
  assume "dict_get (users (st\<lparr>jobs := dict_del (jobs st) jid\<rparr>)) k = Some x"
  then show "u_email x = k" using wf_usersD[OF w, of k x] by simp
qed (use wf_distinct[OF w] in \<open>simp_all add: distinct_dict_del\<close>)

lemma wf_apps_set:
  assumes w: "wf st" and i: "Application_id a = k" "k \<le> c" and c: "last_app_id st \<le> c"
  shows "wf (st\<lparr>last_app_id := c, applications := dict_set (applications st) k a\<rparr>)"
proof (rule wfI)
  fix k' j'
  assume "(k', j') \<in> set (jobs (st\<lparr>last_app_id := c, applications := dict_set (applications st) k a\<rparr>))"
  then have mem: "(k', j') \<in> set (jobs st)" by simp
  show "Job_id j' = k' \<and>
       k' \<le> last_job_id (st\<lparr>last_app_id := c, applications := dict_set (applications st) k a\<rparr>) \<and>
       (\<exists>x. dict_get (users (st\<lparr>last_app_id := c,
                   applications := dict_set (applications st) k a\<rparr>)) (posted_by j') = Some x \<and>
            u_role x = ''employer'')"
    using wf_jobsD[OF w mem] by simp
next
  fix k' a'
  assume "(k', a') \<in> set (applications (st\<lparr>last_app_id := c,
                   applications := dict_set (applications st) k a\<rparr>))"
  then have "(k', a') = (k, a) \<or> (k', a') \<in> set (applications st)"
    using set_dict_set[of "applications st" k a] by auto
  then show "Application_id a' = k' \<and>
       k' \<le> last_app_id (st\<lparr>last_app_id := c, applications := dict_set (applications st) k a\<rparr>)"
  proof
    assume "(k', a') = (k, a)"
    then show ?thesis using i by auto
  next
    assume mem: "(k', a') \<in> set (applications st)"
    show ?thesis using wf_appsD[OF w mem] c by simp
  qed
next
  fix k' x
  assume "dict_get (users (st\<lparr>last_app_id := c,
                   applications := dict_set (applications st) k a\<rparr>)) k' = Some x"
  then show "u_email x = k'" using wf_usersD[OF w, of k' x] by simp
qed (use wf_distinct[OF w] in \<open>simp_all add: distinct_dict_set\<close>)

lemma wf_register_job_seeker: "wf st \<Longrightarrow> wf (snd (register_job_seeker st data))"
  by (simp add: register_job_seeker_def dict_contains_def wf_users_add)

lemma wf_register_employer: "wf st \<Longrightarrow> wf (snd (register_employer st data))"
  by (simp add: register_employer_def dict_contains_def wf_users_add)

lemma wf_post_job:
  assumes "wf st" "dict_get (users st) (u_email cu) = Some cu"
  shows "wf (snd (post_job st now job cu))"
  using assms by (simp add: post_job_def Let_def wf_jobs_add)

lemma wf_update_job: "wf st \<Longrightarrow> wf (snd (update_job st jid upd cu))"
  by (auto simp: update_job_def Let_def split: option.splits
        intro!: wf_jobs_upd dest: dict_get_SomeD)

lemma wf_delete_job: "wf st \<Longrightarrow> wf (snd (delete_job st jid cu))"
  by (simp add: delete_job_def wf_jobs_del split: option.splits)

lemma wf_apply_for_job: "wf st \<Longrightarrow> wf (snd (apply_for_job st now application cu))"
  using wf_apps_set[of st _ "last_app_id st + 1" "last_app_id st + 1"]
  by (simp add: apply_for_job_def Let_def split: option.splits)

lemma wf_review_application: "wf st \<Longrightarrow> wf (snd (review_application st app_id review cu))"
proof -
  assume w: "wf st"
  show ?thesis
  proof (cases "dict_get (applications st) app_id")
    case None
    then show ?thesis using w by (simp add: review_application_def)
  next
    case (Some a)
    then have mem: "(app_id, a) \<in> set (applications st)" by (rule dict_get_SomeD)
    have "wf (st\<lparr>last_app_id := last_app_id st,
                  applications := dict_set (applications st) app_id
                                    (a\<lparr>status := review_status review\<rparr>)\<rparr>)"
      using wf_appsD[OF w mem] by (intro wf_apps_set[OF w]) simp_all
    then show ?thesis
      using w Some by (simp add: review_application_def Let_def split: option.splits)
  qed
qed

lemma snd_respond: "snd (respond f out) = snd out"
  by (simp add: respond_def split: sum.splits)

lemma fst_respond_Inl: "fst (respond f out) = Inl e \<longleftrightarrow> fst out = Inl e"
  by (simp add: respond_def split: sum.splits)

lemma wf_depends_current_user:
  assumes "wf st"
    and "\<And>cu. dict_get (users st) (u_email cu) = Some cu \<Longrightarrow> wf (snd (handler cu))"
  shows "wf (snd (depends_current_user st now token handler))"
  using assms get_current_user_wf[OF assms(1), of now token]
  by (simp add: depends_current_user_def split: sum.splits)

lemma wf_handle: "wf st \<Longrightarrow> wf (snd (handle lib st now req))"
proof (cases req)
  case (PostJob token job)
  assume "wf st"
  then show ?thesis
    unfolding PostJob handle_def request.case
    by (intro wf_depends_current_user) (simp_all add: snd_respond wf_post_job)
next
  case (ReviewApplication token app_id review)
  assume "wf st"
  then show ?thesis
    unfolding ReviewApplication handle_def request.case
    by (intro wf_depends_current_user) (simp_all add: snd_respond wf_review_application)
next
  case (ApplyForJob token body)
  assume "wf st"
  then show ?thesis
    unfolding ApplyForJob handle_def request.case
    by (intro wf_depends_current_user)
       (simp_all add: snd_respond wf_apply_for_job split: option.splits)
qed (simp_all add: handle_def snd_respond wf_depends_current_user
        login_def login_alt_def list_jobs_def get_job_def my_applications_def
        applications_for_job_def jobseeker_dashboard_def employer_dashboard_def Let_def
        wf_register_job_seeker wf_register_employer wf_update_job wf_delete_job
      split: option.splits)

lemma wf_run: "wf st \<Longrightarrow> wf (run lib st reqs)"
  by (induction lib st reqs rule: run.induct) (simp_all add: wf_handle)

lemma reachable_wf: "reachable st \<Longrightarrow> wf st"
  by (auto simp: reachable_def wf_run wf_init)

lemma reachableI: "st = run lib init_state reqs \<Longrightarrow> reachable st"
  unfolding reachable_def by blast

lemma already_applied_iff:
  "already_applied jid email apps \<longleftrightarrow>
     (\<exists>a \<in> set apps. job_id a = jid \<and> seeker_email a = email)"
  by (induction apps) auto

lemma succeeds_respond: "succeeds (respond f out) = succeeds out"
  by (simp add: succeeds_def respond_def split: sum.splits)

lemma depends_current_user_atomic:
  assumes "\<And>cu. \<not> succeeds (handler cu) \<Longrightarrow> snd (handler cu) = st"
    and "\<not> succeeds (depends_current_user st now token handler)"
  shows "snd (depends_current_user st now token handler) = st"
  using assms by (auto simp: depends_current_user_def split: sum.splits)

lemma register_job_seeker_atomic:
  "\<not> succeeds (register_job_seeker st data) \<Longrightarrow> snd (register_job_seeker st data) = st"
  by (simp add: register_job_seeker_def succeeds_def split: if_splits)

lemma register_employer_atomic:
  "\<not> succeeds (register_employer st data) \<Longrightarrow> snd (register_employer st data) = st"
  by (simp add: register_employer_def succeeds_def split: if_splits)

lemma post_job_atomic:
  "\<not> succeeds (post_job st now job cu) \<Longrightarrow> snd (post_job st now job cu) = st"
  by (simp add: post_job_def succeeds_def Let_def split: if_splits)

lemma update_job_atomic:
  "\<not> succeeds (update_job st jid upd cu) \<Longrightarrow> snd (update_job st jid upd cu) = st"
  by (simp add: update_job_def succeeds_def Let_def split: if_splits option.splits)

lemma delete_job_atomic:
  "\<not> succeeds (delete_job st jid cu) \<Longrightarrow> snd (delete_job st jid cu) = st"
  by (simp add: delete_job_def succeeds_def split: if_splits option.splits)

lemma apply_for_job_atomic:
  "\<not> succeeds (apply_for_job st now a cu) \<Longrightarrow> snd (apply_for_job st now a cu) = st"
  by (simp add: apply_for_job_def succeeds_def Let_def split: if_splits option.splits)

lemma review_application_atomic:
  "\<not> succeeds (review_application st app_id r cu) \<Longrightarrow>
   snd (review_application st app_id r cu) = st"
  by (simp add: review_application_def succeeds_def Let_def split: if_splits option.splits)

lemma handle_atomic:
  "\<not> succeeds (handle lib st now req) \<Longrightarrow> snd (handle lib st now req) = st"
proof (cases req)
  case (PostJob token job)
  assume "\<not> succeeds (handle lib st now req)"
  then show ?thesis
    unfolding PostJob handle_def request.case
    by (rule depends_current_user_atomic[rotated])
       (simp add: succeeds_respond snd_respond post_job_atomic)
next
  case (UpdateJob token jid upd)
  assume "\<not> succeeds (handle lib st now req)"
  then show ?thesis
    unfolding UpdateJob handle_def request.case
    by (rule depends_current_user_atomic[rotated])
       (simp add: succeeds_respond snd_respond update_job_atomic)
next
  case (DeleteJob token jid)
  assume "\<not> succeeds (handle lib st now req)"
  then show ?thesis
    unfolding DeleteJob handle_def request.case
    by (rule depends_current_user_atomic[rotated])
       (simp add: succeeds_respond snd_respond delete_job_atomic)
next
  case (ApplyForJob token body)
  assume "\<not> succeeds (handle lib st now req)"
  then show ?thesis
    unfolding ApplyForJob handle_def request.case
    by (rule depends_current_user_atomic[rotated])
       (simp add: succeeds_respond snd_respond apply_for_job_atomic split: option.splits)
next
  case (ReviewApplication token app_id r)
  assume "\<not> succeeds (handle lib st now req)"
  then show ?thesis
    unfolding ReviewApplication handle_def request.case
    by (rule depends_current_user_atomic[rotated])
       (simp add: succeeds_respond snd_respond review_application_atomic split: if_splits)
next
  case (RegisterJobSeeker body)
  assume "\<not> succeeds (handle lib st now req)"
  then show ?thesis
    unfolding RegisterJobSeeker handle_def request.case
    by (simp add: succeeds_respond snd_respond register_job_seeker_atomic
          split: option.splits)
next
  case (RegisterEmployer body)
  assume "\<not> succeeds (handle lib st now req)"
  then show ?thesis
    unfolding RegisterEmployer handle_def request.case
    by (simp add: succeeds_respond snd_respond register_employer_atomic
          split: option.splits)
qed (simp_all add: handle_def snd_respond depends_current_user_def
        login_def login_alt_def list_jobs_def get_job_def my_applications_def
        applications_for_job_def jobseeker_dashboard_def employer_dashboard_def Let_def
      split: option.splits sum.splits)

lemma handle_counters_mono:
  "last_job_id st \<le> last_job_id (snd (handle lib st now req)) \<and>
   last_app_id st \<le> last_app_id (snd (handle lib st now req))"
  by (cases req)
     (auto simp: handle_def snd_respond depends_current_user_def
        register_job_seeker_def register_employer_def login_def login_alt_def post_job_def
        list_jobs_def get_job_def update_job_def delete_job_def apply_for_job_def
        my_applications_def applications_for_job_def review_application_def
        jobseeker_dashboard_def employer_dashboard_def Let_def
      split: option.splits sum.splits)

lemma run_counters_mono:
  "last_job_id st \<le> last_job_id (run lib st reqs) \<and>
   last_app_id st \<le> last_app_id (run lib st reqs)"
proof (induction lib st reqs rule: run.induct)
  case (1 lib st)
  show ?case by simp
next
  case (2 lib st now req rest)
  show ?case
    using 2 handle_counters_mono[of st lib now req] by auto
qed

lemma wf_job_ids: "wf st \<Longrightarrow> map Job_id (dict_values (jobs st)) = dict_keys (jobs st)"
  using wf_jobsD(1)[of st] by (auto simp: dict_values_def dict_keys_def)

lemma wf_app_ids:
  "wf st \<Longrightarrow> map Application_id (dict_values (applications st)) = dict_keys (applications st)"
  using wf_appsD(1)[of st] by (auto simp: dict_values_def dict_keys_def)

lemma wf_job_id_le: "wf st \<Longrightarrow> j \<in> set (dict_values (jobs st)) \<Longrightarrow> Job_id j \<le> last_job_id st"
  using wf_jobsD(1,2)[of st] by (auto simp: dict_values_def)

lemma wf_app_id_le:
  "wf st \<Longrightarrow> x \<in> set (dict_values (applications st)) \<Longrightarrow> Application_id x \<le> last_app_id st"
  using wf_appsD[of st] by (auto simp: dict_values_def)

lemma post_job_Inr:
  assumes "post_job st now job cu = (Inr j, st')"
  shows "Job_id j = last_job_id st + 1" "last_job_id st' = last_job_id st + 1"
    "dict_get (jobs st') (Job_id j) = Some j"
  using assms by (auto simp: post_job_def Let_def dict_get_set split: if_splits)

lemma apply_for_job_Inr:
  assumes "apply_for_job st now a cu = (Inr new, st')"
  shows "Application_id new = last_app_id st + 1" "last_app_id st' = last_app_id st + 1"
    "dict_get (applications st') (Application_id new) = Some new"
  using assms by (auto simp: apply_for_job_def Let_def dict_get_set split: if_splits option.splits)

lemma list_jobs_loop_filter:
  "list_jobs_loop lower query loc sks js acc = acc @ filter (job_match lower query loc sks) js"
  by (induction js arbitrary: acc) simp_all

lemma job_match_conj:
  "job_match lower query loc sks job =
     ((case query of
         None \<Rightarrow> True
       | Some q \<Rightarrow> q = [] \<or> str_in (lower q) (lower (title job) @ lower (description job))) \<and>
      (case loc of None \<Rightarrow> True | Some l \<Rightarrow> l = [] \<or> lower l = lower (location job)) \<and>
      (case sks of
         None \<Rightarrow> True
       | Some requested \<Rightarrow>
           requested = [] \<or>
           list_all (\<lambda>skill. lower skill \<in> set (map lower (skills job))) requested))"
  by (auto simp: job_match_def Let_def split: option.splits)

lemma query_filter_empty:
  "lower [] = [] \<Longrightarrow> (q = [] \<or> str_in (lower q) s) = str_in (lower q) s"
  by (auto simp: str_in_def)

lemma skills_filter_spec:
  "(requested = [] \<or>
    list_all (\<lambda>skill. lower skill \<in> set (map lower (skills job))) requested) =
   (\<forall>skill \<in> set requested. \<exists>stored \<in> set (skills job). lower skill = lower stored)"
  by (auto simp: list_all_iff image_iff)

lemma job_match_spec:
  assumes "lower [] = []"
  shows "job_match lower query loc sks job =
     satisfies_provided_filters lower query (if loc = Some [] then None else loc) sks job"
  unfolding job_match_conj satisfies_provided_filters_def query_filter_empty[of lower, OF assms]
    skills_filter_spec
  by (auto split: option.splits)



lemma fails_with_respond: "fails_with (respond f out) code = fails_with out code"
  by (simp add: fails_with_def respond_def split: sum.splits)

lemma fails_with_simps:
  "fails_with (Inl (HTTPException c d), st) code = (c = code)"
  "fails_with (Inl RequestValidationError, st) code = False"
  "fails_with (Inr v, st) code = False"
  by (simp_all add: fails_with_def)

lemma not_employer_not_owner:
  assumes w: "wf st" and cu: "dict_get (users st) (u_email cu) = Some cu"
    and role: "u_role cu \<noteq> ''employer''" and j: "dict_get (jobs st) jid = Some job"
  shows "posted_by job \<noteq> u_email cu"
proof
  assume eq: "posted_by job = u_email cu"
  from wf_jobsD(3)[OF w dict_get_SomeD[OF j]] obtain u where
    "dict_get (users st) (posted_by job) = Some u" "u_role u = ''employer''" by blast
  then show False using cu role eq by simp
qed

section \<open>Example state\<close>

lemma run_ex_requests: "run ex_library init_state ex_requests = ex_state"
  by code_simp

lemma reachable_ex_state: "reachable ex_state"
  using run_ex_requests[symmetric] by (rule reachableI)

section \<open>Claims\<close>

text \<open>
  C4. \<open>update_job\<close> and \<open>delete_job\<close> raise 404 (NotFound) when no job is stored under
  the id, raise 403 (Forbidden) when the stored job's \<open>posted_by\<close> is not the actor's
  email, and succeed exactly when the job exists and \<open>posted_by\<close> is the actor's email.
  The lookup comes first: an absent job is NotFound whoever asks.
\<close>

theorem update_delete_owner_only:
  "(dict_get (jobs st) jid = None \<longrightarrow>
      update_job st jid upd cu = (Inl (HTTPException 404 ''Job not found''), st) \<and>
      delete_job st jid cu = (Inl (HTTPException 404 ''Job not found''), st)) \<and>
   (dict_get (jobs st) jid = Some job \<and> posted_by job \<noteq> u_email cu \<longrightarrow>
      update_job st jid upd cu =
        (Inl (HTTPException 403 ''Cannot update job not posted by you''), st) \<and>
      delete_job st jid cu =
        (Inl (HTTPException 403 ''Cannot delete job not posted by you''), st)) \<and>
   (succeeds (update_job st jid upd cu) \<longleftrightarrow>
      (\<exists>j. dict_get (jobs st) jid = Some j \<and> posted_by j = u_email cu)) \<and>
   (succeeds (delete_job st jid cu) \<longleftrightarrow>
      (\<exists>j. dict_get (jobs st) jid = Some j \<and> posted_by j = u_email cu))"
  by (auto simp: update_job_def delete_job_def succeeds_def Let_def split: option.splits)

theorem update_delete_owner_only_witness:
  "update_job ex_state 7 ex_job_create ex_employer = (Inl (HTTPException 404 ''Job not found''), ex_state) \<and>
   delete_job ex_state 7 ex_employer = (Inl (HTTPException 404 ''Job not found''), ex_state) \<and>
   update_job ex_state 1 ex_job_create ex_seeker =
        (Inl (HTTPException 403 ''Cannot update job not posted by you''), ex_state) \<and>
   delete_job ex_state 1 ex_seeker =
        (Inl (HTTPException 403 ''Cannot delete job not posted by you''), ex_state) \<and>
   succeeds (update_job ex_state 1 ex_job_create ex_employer) \<and>
   succeeds (delete_job ex_state 1 ex_employer)"
proof -
  have none: "dict_get (jobs ex_state) 7 = None"
    by (simp add: ex_state_def dict_get_def)
  have some: "dict_get (jobs ex_state) 1 = Some ex_job"
    by (simp add: ex_state_def dict_get_def)
  have other: "posted_by ex_job \<noteq> u_email ex_seeker"
    by (simp add: ex_job_def ex_seeker_def)
  have own: "posted_by ex_job = u_email ex_employer"
    by (simp add: ex_job_def ex_employer_def)
  show ?thesis
    using update_delete_owner_only[of ex_state 7 ex_job_create ex_employer ex_job]
      update_delete_owner_only[of ex_state 1 ex_job_create ex_seeker ex_job]
      update_delete_owner_only[of ex_state 1 ex_job_create ex_employer ex_job]
      none some other own
    by blast
qed

text \<open>
  C1. \<open>apply_for_job\<close> checks, in this order: the actor's role (403 unless jobseeker),
  the declared \<open>seeker_email\<close> against the actor's email (403), the job (404 when
  absent), an earlier application with the same job and seeker (400). Only then it stores
  and returns a new application: status \<open>pending\<close>, the actor's email, id one above
  the counter, which no stored application of a reachable state carries.
\<close>

theorem apply_for_job_checks_in_order:
  "(u_role cu \<noteq> ''jobseeker'' \<longrightarrow>
      apply_for_job st now a cu = (Inl (HTTPException 403 ''Only job seekers can apply''), st)) \<and>
   (u_role cu = ''jobseeker'' \<and> seeker_email a \<noteq> u_email cu \<longrightarrow>
      apply_for_job st now a cu =
        (Inl (HTTPException 403 ''You can only apply as yourself''), st)) \<and>
   (u_role cu = ''jobseeker'' \<and> seeker_email a = u_email cu \<and>
    dict_get (jobs st) (job_id a) = None \<longrightarrow>
      apply_for_job st now a cu = (Inl (HTTPException 404 ''Job not found''), st)) \<and>
   (u_role cu = ''jobseeker'' \<and> seeker_email a = u_email cu \<and>
    dict_get (jobs st) (job_id a) \<noteq> None \<and>
    (\<exists>x \<in> set (dict_values (applications st)).
        job_id x = job_id a \<and> seeker_email x = seeker_email a) \<longrightarrow>
      apply_for_job st now a cu =
        (Inl (HTTPException 400 ''Already applied to this job''), st)) \<and>
   (u_role cu = ''jobseeker'' \<and> seeker_email a = u_email cu \<and>
    dict_get (jobs st) (job_id a) \<noteq> None \<and>
    \<not> (\<exists>x \<in> set (dict_values (applications st)).
        job_id x = job_id a \<and> seeker_email x = seeker_email a) \<longrightarrow>
      (\<exists>new. apply_for_job st now a cu =
          (Inr new, st\<lparr>last_app_id := last_app_id st + 1,
                        applications := dict_set (applications st) (last_app_id st + 1) new\<rparr>) \<and>
        status new = ''pending'' \<and> seeker_email new = u_email cu \<and>
        job_id new = job_id a \<and> cover_letter new = cover_letter a \<and> applied_at new = now \<and>
        Application_id new = last_app_id st + 1 \<and>
        (reachable st \<longrightarrow>
           Application_id new \<notin> set (dict_keys (applications st)) \<and>
           applications (snd (apply_for_job st now a cu)) =
             applications st @ [(Application_id new, new)])))"
proof -
  have fresh: "reachable st \<Longrightarrow> last_app_id st + 1 \<notin> set (dict_keys (applications st))"
    by (rule app_counter_fresh) (rule reachable_wf)
  show ?thesis
    using fresh
    by (auto simp: apply_for_job_def Let_def already_applied_iff dict_set_fresh
          split: option.splits)
qed

lemma run_ex_before: "run ex_library init_state (butlast ex_requests) = ex_state_before_apply"
  by code_simp

lemma reachable_ex_state_before_apply: "reachable ex_state_before_apply"
  using run_ex_before[symmetric] by (rule reachableI)

theorem apply_for_job_checks_in_order_witness:
  "apply_for_job ex_state 2 ex_apply ex_employer =
     (Inl (HTTPException 403 ''Only job seekers can apply''), ex_state) \<and>
   apply_for_job ex_state 2 (ex_apply\<lparr>seeker_email := ''bo@acme.io''\<rparr>) ex_seeker =
     (Inl (HTTPException 403 ''You can only apply as yourself''), ex_state) \<and>
   apply_for_job ex_state 2 (ex_apply\<lparr>job_id := 7\<rparr>) ex_seeker =
     (Inl (HTTPException 404 ''Job not found''), ex_state) \<and>
   apply_for_job ex_state 2 ex_apply ex_seeker =
     (Inl (HTTPException 400 ''Already applied to this job''), ex_state) \<and>
   (\<exists>new. apply_for_job ex_state_before_apply 2 ex_apply ex_seeker =
       (Inr new, ex_state_before_apply\<lparr>last_app_id := 1, applications := [(1, new)]\<rparr>) \<and>
      status new = ''pending'' \<and> seeker_email new = ''ann@mail.io'' \<and>
      Application_id new = 1 \<and>
      Application_id new \<notin> set (dict_keys (applications ex_state_before_apply)))"
proof -
  have r1: "u_role ex_employer \<noteq> ''jobseeker''" by (simp add: ex_employer_def)
  have r2: "u_role ex_seeker = ''jobseeker''" by (simp add: ex_seeker_def)
  have e2: "seeker_email (ex_apply\<lparr>seeker_email := ''bo@acme.io''\<rparr>) \<noteq> u_email ex_seeker"
    by (simp add: ex_seeker_def)
  have e3: "seeker_email (ex_apply\<lparr>job_id := 7\<rparr>) = u_email ex_seeker"
    "seeker_email ex_apply = u_email ex_seeker"
    by (simp_all add: ex_seeker_def ex_apply_def)
  have j3: "dict_get (jobs ex_state) (job_id (ex_apply\<lparr>job_id := 7\<rparr>)) = None"
    by (simp add: ex_state_def dict_get_def)
  have j4: "dict_get (jobs ex_state) (job_id ex_apply) \<noteq> None"
    "dict_get (jobs ex_state_before_apply) (job_id ex_apply) \<noteq> None"
    by (simp_all add: ex_state_def ex_state_before_apply_def ex_apply_def dict_get_def)
  have d4: "\<exists>x \<in> set (dict_values (applications ex_state)).
        job_id x = job_id ex_apply \<and> seeker_email x = seeker_email ex_apply"
    by (simp add: ex_state_def dict_values_def ex_apply_def ex_application_def)
  have d5: "\<not> (\<exists>x \<in> set (dict_values (applications ex_state_before_apply)).
        job_id x = job_id ex_apply \<and> seeker_email x = seeker_email ex_apply)"
    by (simp add: ex_state_before_apply_def dict_values_def)
  have c1: "apply_for_job ex_state 2 ex_apply ex_employer =
     (Inl (HTTPException 403 ''Only job seekers can apply''), ex_state)"
    using apply_for_job_checks_in_order[where cu = ex_employer and st = ex_state and now = 2
        and a = ex_apply] r1 by blast
  have c2: "apply_for_job ex_state 2 (ex_apply\<lparr>seeker_email := ''bo@acme.io''\<rparr>) ex_seeker =
     (Inl (HTTPException 403 ''You can only apply as yourself''), ex_state)"
    using apply_for_job_checks_in_order[where cu = ex_seeker and st = ex_state and now = 2
        and a = "ex_apply\<lparr>seeker_email := ''bo@acme.io''\<rparr>"] r2 e2 by blast
  have c3: "apply_for_job ex_state 2 (ex_apply\<lparr>job_id := 7\<rparr>) ex_seeker =
     (Inl (HTTPException 404 ''Job not found''), ex_state)"
    using apply_for_job_checks_in_order[where cu = ex_seeker and st = ex_state and now = 2
        and a = "ex_apply\<lparr>job_id := 7\<rparr>"] r2 e3(1) j3 by blast
  have c4: "apply_for_job ex_state 2 ex_apply ex_seeker =
     (Inl (HTTPException 400 ''Already applied to this job''), ex_state)"
    using apply_for_job_checks_in_order[where cu = ex_seeker and st = ex_state and now = 2
        and a = ex_apply] r2 e3(2) j4(1) d4 by blast
  have "\<exists>new. apply_for_job ex_state_before_apply 2 ex_apply ex_seeker =
          (Inr new, ex_state_before_apply\<lparr>last_app_id := last_app_id ex_state_before_apply + 1,
              applications := dict_set (applications ex_state_before_apply)
                                (last_app_id ex_state_before_apply + 1) new\<rparr>) \<and>
        status new = ''pending'' \<and> seeker_email new = u_email ex_seeker \<and>
        Application_id new = last_app_id ex_state_before_apply + 1 \<and>
        Application_id new \<notin> set (dict_keys (applications ex_state_before_apply))"
    using apply_for_job_checks_in_order[where cu = ex_seeker and st = ex_state_before_apply
        and now = 2 and a = ex_apply] r2 e3(2) j4(2) d5 reachable_ex_state_before_apply
    by blast
  then have c5: "\<exists>new. apply_for_job ex_state_before_apply 2 ex_apply ex_seeker =
       (Inr new, ex_state_before_apply\<lparr>last_app_id := 1, applications := [(1, new)]\<rparr>) \<and>
      status new = ''pending'' \<and> seeker_email new = ''ann@mail.io'' \<and>
      Application_id new = 1 \<and>
      Application_id new \<notin> set (dict_keys (applications ex_state_before_apply))"
    by (simp add: ex_state_before_apply_def ex_seeker_def)
  show ?thesis using c1 c2 c3 c4 c5 by blast
qed

text \<open>
  C7. A successful \<open>update_job\<close> replaces all seven \<open>JobCreate\<close> fields by the payload's
  (a salary the payload leaves at \<open>None\<close> becomes \<open>None\<close>), keeps \<open>id\<close>, \<open>posted_by\<close>
  and \<open>created_at\<close>, keeps every other job and the order of the catalog, and leaves users,
  applications and both counters alone.
\<close>

theorem update_job_full_replace:
  "update_job st jid upd cu = (Inr j', st') \<longrightarrow>
     title j' = title upd \<and> description j' = description upd \<and>
     company j' = company upd \<and> location j' = location upd \<and>
     skills j' = skills upd \<and> salary_min j' = salary_min upd \<and>
     salary_max j' = salary_max upd \<and>
     (\<exists>old. dict_get (jobs st) jid = Some old \<and> Job_id j' = Job_id old \<and>
        posted_by j' = posted_by old \<and> created_at j' = created_at old) \<and>
     dict_get (jobs st') jid = Some j' \<and>
     (\<forall>k. k \<noteq> jid \<longrightarrow> dict_get (jobs st') k = dict_get (jobs st) k) \<and>
     dict_keys (jobs st') = dict_keys (jobs st) \<and>
     users st' = users st \<and> applications st' = applications st \<and>
     last_job_id st' = last_job_id st \<and> last_app_id st' = last_app_id st"
proof
  assume ok: "update_job st jid upd cu = (Inr j', st')"
  then obtain old where old: "dict_get (jobs st) jid = Some old"
    by (auto simp: update_job_def split: option.splits)
  then have own: "posted_by old = u_email cu"
    using ok by (auto simp: update_job_def split: if_splits)
  have j': "j' = old\<lparr>title := title upd, description := description upd,
                    company := company upd, location := location upd,
                    skills := skills upd, salary_min := salary_min upd,
                    salary_max := salary_max upd\<rparr>"
    and st': "st' = st\<lparr>jobs := dict_set (jobs st) jid j'\<rparr>"
    using ok old own by (auto simp: update_job_def Let_def)
  have key: "jid \<in> set (dict_keys (jobs st))"
    using old dict_get_None_iff[of "jobs st" jid] by auto
  show "title j' = title upd \<and> description j' = description upd \<and>
     company j' = company upd \<and> location j' = location upd \<and>
     skills j' = skills upd \<and> salary_min j' = salary_min upd \<and>
     salary_max j' = salary_max upd \<and>
     (\<exists>old. dict_get (jobs st) jid = Some old \<and> Job_id j' = Job_id old \<and>
        posted_by j' = posted_by old \<and> created_at j' = created_at old) \<and>
     dict_get (jobs st') jid = Some j' \<and>
     (\<forall>k. k \<noteq> jid \<longrightarrow> dict_get (jobs st') k = dict_get (jobs st) k) \<and>
     dict_keys (jobs st') = dict_keys (jobs st) \<and>
     users st' = users st \<and> applications st' = applications st \<and>
     last_job_id st' = last_job_id st \<and> last_app_id st' = last_app_id st"
    using old key by (simp add: j' st' dict_get_set dict_keys_set)
qed

theorem update_job_full_replace_witness:
  "update_job ex_state 1 ex_update ex_employer =
     (Inr ex_job_updated, ex_state\<lparr>jobs := [(1, ex_job_updated)]\<rparr>) \<and>
   salary_max ex_job_updated = salary_max ex_update \<and>
   company ex_job_updated = company ex_update \<and>
   dict_get (jobs (ex_state\<lparr>jobs := [(1, ex_job_updated)]\<rparr>)) 1 = Some ex_job_updated \<and>
   applications (ex_state\<lparr>jobs := [(1, ex_job_updated)]\<rparr>) = applications ex_state"
proof -
  have run: "update_job ex_state 1 ex_update ex_employer =
     (Inr ex_job_updated, ex_state\<lparr>jobs := [(1, ex_job_updated)]\<rparr>)"
    by (simp add: update_job_def ex_state_def dict_get_def ex_job_def ex_employer_def
          ex_update_def ex_job_updated_def Let_def)
  show ?thesis
    using update_job_full_replace[of ex_state 1 ex_update ex_employer ex_job_updated
        "ex_state\<lparr>jobs := [(1, ex_job_updated)]\<rparr>"] run
    by simp
qed

text \<open>
  C10. \<open>POST /auth/token\<close> authenticates with the first scope of the form, or with
  \<open>jobseeker\<close> when the form has no scope; \<open>POST /auth/login\<close> authenticates with the
  role of the body. So an employer with the right email and password, and no scope or a
  first scope other than \<open>employer\<close>, gets 401 and no token.
\<close>

theorem token_login_defaults_to_jobseeker:
  "(form_scopes form = [] \<longrightarrow>
      login st now form =
        login_alt st now \<lparr>login_email = form_username form,
                           login_password = form_password form,
                           login_role = ''jobseeker''\<rparr>) \<and>
   (form_scopes form = scope # rest \<longrightarrow>
      login st now form =
        login_alt st now \<lparr>login_email = form_username form,
                           login_password = form_password form, login_role = scope\<rparr>) \<and>
   (dict_get (users st) (form_username form) = Some u \<and>
    u_password u = form_password form \<and> u_role u = ''employer'' \<and>
    (form_scopes form = [] \<or> (form_scopes form = scope # rest \<and> scope \<noteq> ''employer'')) \<longrightarrow>
      login st now form = (Inl (HTTPException 401 ''Incorrect email, password, or role''), st)) \<and>
   (dict_get (users st) (login_email data) = Some u \<and> u_password u = login_password data \<longrightarrow>
      login_alt st now data =
        (if u_role u = login_role data
         then (Inr (create_access_token now (u_email u) (u_role u)), st)
         else (Inl (HTTPException 401 ''Incorrect email, password, or role''), st)))"
  by (auto simp: login_def login_alt_def authenticate_user_def)

theorem token_login_defaults_to_jobseeker_witness:
  "login ex_state 5 (ex_form []) =
     (Inl (HTTPException 401 ''Incorrect email, password, or role''), ex_state) \<and>
   login ex_state 5 (ex_form [''jobseeker'', ''employer'']) =
     (Inl (HTTPException 401 ''Incorrect email, password, or role''), ex_state) \<and>
   login ex_state 5 (ex_form [''employer'']) = login_alt ex_state 5 ex_login \<and>
   login_alt ex_state 5 ex_login =
     (Inr (create_access_token 5 ''bo@acme.io'' ''employer''), ex_state)"
proof -
  have u: "dict_get (users ex_state) (form_username (ex_form scopes)) = Some ex_employer"
    "u_password ex_employer = form_password (ex_form scopes)"
    "u_role ex_employer = ''employer''" for scopes
    by (simp_all add: ex_state_def dict_get_def ex_form_def ex_employer_def)
  have u': "dict_get (users ex_state) (login_email ex_login) = Some ex_employer"
    "u_password ex_employer = login_password ex_login"
    by (simp_all add: ex_state_def dict_get_def ex_login_def ex_employer_def)
  have s0: "form_scopes (ex_form []) = []"
    and s1: "form_scopes (ex_form [''jobseeker'', ''employer'']) = ''jobseeker'' # [''employer'']"
    and s2: "form_scopes (ex_form [''employer'']) = ''employer'' # []"
    by (simp_all add: ex_form_def)
  have ne: "''jobseeker'' \<noteq> ''employer''" by simp
  have c1: "login ex_state 5 (ex_form []) =
     (Inl (HTTPException 401 ''Incorrect email, password, or role''), ex_state)"
    using token_login_defaults_to_jobseeker[where form = "ex_form []" and st = ex_state
        and now = 5 and u = ex_employer] u s0 by blast
  have c2: "login ex_state 5 (ex_form [''jobseeker'', ''employer'']) =
     (Inl (HTTPException 401 ''Incorrect email, password, or role''), ex_state)"
    using token_login_defaults_to_jobseeker[where form = "ex_form [''jobseeker'', ''employer'']"
        and st = ex_state and now = 5 and u = ex_employer and scope = "''jobseeker''"
        and rest = "[''employer'']"] u s1 ne by blast
  have "login ex_state 5 (ex_form [''employer'']) =
        login_alt ex_state 5
          \<lparr>login_email = form_username (ex_form [''employer'']),
             login_password = form_password (ex_form [''employer'']),
             login_role = ''employer''\<rparr>"
    using token_login_defaults_to_jobseeker[where form = "ex_form [''employer'']"
        and st = ex_state and now = 5 and scope = "''employer''" and rest = "[]"] s2 by blast
  then have c3: "login ex_state 5 (ex_form [''employer'']) = login_alt ex_state 5 ex_login"
    by (simp add: ex_form_def ex_login_def)
  have "login_alt ex_state 5 ex_login =
        (if u_role ex_employer = login_role ex_login
         then (Inr (create_access_token 5 (u_email ex_employer) (u_role ex_employer)), ex_state)
         else (Inl (HTTPException 401 ''Incorrect email, password, or role''), ex_state))"
    using token_login_defaults_to_jobseeker[where data = ex_login and st = ex_state
        and now = 5 and u = ex_employer] u' by blast
  then have c4: "login_alt ex_state 5 ex_login =
     (Inr (create_access_token 5 ''bo@acme.io'' ''employer''), ex_state)"
    by (simp add: ex_employer_def ex_login_def)
  show ?thesis using c1 c2 c3 c4 by blast
qed

text \<open>
  C9. A call that fails changes nothing: when \<open>register_job_seeker\<close>,
  \<open>register_employer\<close>, \<open>post_job\<close>, \<open>update_job\<close>, \<open>delete_job\<close>,
  \<open>apply_for_job\<close> or \<open>review_application\<close> raises, and when a whole request ends in
  any error (401 from the token; a validation error for a malformed email, a short
  password, a wrong constant role or a status outside the pattern; 400, 403, 404), the
  three tables and both counters are as before. In particular a refused application
  consumes no id.
\<close>

theorem failed_call_leaves_state:
  "(\<not> succeeds (register_job_seeker st js) \<longrightarrow> snd (register_job_seeker st js) = st) \<and>
   (\<not> succeeds (register_employer st emp) \<longrightarrow> snd (register_employer st emp) = st) \<and>
   (\<not> succeeds (post_job st now job cu) \<longrightarrow> snd (post_job st now job cu) = st) \<and>
   (\<not> succeeds (update_job st jid job cu) \<longrightarrow> snd (update_job st jid job cu) = st) \<and>
   (\<not> succeeds (delete_job st jid cu) \<longrightarrow> snd (delete_job st jid cu) = st) \<and>
   (\<not> succeeds (apply_for_job st now a cu) \<longrightarrow> snd (apply_for_job st now a cu) = st) \<and>
   (\<not> succeeds (review_application st app_id r cu) \<longrightarrow>
      snd (review_application st app_id r cu) = st) \<and>
   (\<not> succeeds (handle lib st now req) \<longrightarrow> snd (handle lib st now req) = st)"
  by (simp add: register_job_seeker_atomic register_employer_atomic post_job_atomic
        update_job_atomic delete_job_atomic apply_for_job_atomic review_application_atomic
        handle_atomic)

theorem failed_call_leaves_state_witness:
  "\<not> succeeds (register_job_seeker ex_state ex_seeker_reg) \<and>
   snd (register_job_seeker ex_state ex_seeker_reg) = ex_state \<and>
   \<not> succeeds (register_employer ex_state ex_employer_reg) \<and>
   snd (register_employer ex_state ex_employer_reg) = ex_state \<and>
   \<not> succeeds (post_job ex_state 5 ex_job_create ex_seeker) \<and>
   snd (post_job ex_state 5 ex_job_create ex_seeker) = ex_state \<and>
   \<not> succeeds (update_job ex_state 1 ex_job_create ex_seeker) \<and>
   snd (update_job ex_state 1 ex_job_create ex_seeker) = ex_state \<and>
   \<not> succeeds (delete_job ex_state 7 ex_employer) \<and>
   snd (delete_job ex_state 7 ex_employer) = ex_state \<and>
   \<not> succeeds (apply_for_job ex_state 5 ex_apply ex_seeker) \<and>
   snd (apply_for_job ex_state 5 ex_apply ex_seeker) = ex_state \<and>
   last_app_id (snd (apply_for_job ex_state 5 ex_apply ex_seeker)) = 1 \<and>
   \<not> succeeds (review_application ex_state 1 (ex_review ''accepted'') ex_seeker) \<and>
   snd (review_application ex_state 1 (ex_review ''accepted'') ex_seeker) = ex_state \<and>
   \<not> succeeds (handle ex_library ex_state 5 (ApplyForJob ex_expired_token ex_apply)) \<and>
   snd (handle ex_library ex_state 5 (ApplyForJob ex_expired_token ex_apply)) = ex_state \<and>
   \<not> succeeds (handle ex_library ex_state 5 (RegisterJobSeeker ex_bad_email_reg)) \<and>
   snd (handle ex_library ex_state 5 (RegisterJobSeeker ex_bad_email_reg)) = ex_state \<and>
   \<not> succeeds (handle ex_library ex_state 5 (RegisterEmployer ex_short_password_reg)) \<and>
   snd (handle ex_library ex_state 5 (RegisterEmployer ex_short_password_reg)) = ex_state"
proof -
  have f1: "\<not> succeeds (register_job_seeker ex_state ex_seeker_reg)"
    by (simp add: succeeds_def register_job_seeker_def dict_contains_def dict_get_def
          ex_state_def ex_seeker_reg_def)
  have f2: "\<not> succeeds (register_employer ex_state ex_employer_reg)"
    by (simp add: succeeds_def register_employer_def dict_contains_def dict_get_def
          ex_state_def ex_employer_reg_def)
  have f3: "\<not> succeeds (post_job ex_state 5 ex_job_create ex_seeker)"
    by (simp add: succeeds_def post_job_def ex_seeker_def)
  have f4: "\<not> succeeds (update_job ex_state 1 ex_job_create ex_seeker)"
    by (simp add: succeeds_def update_job_def dict_get_def ex_state_def ex_job_def ex_seeker_def)
  have f5: "\<not> succeeds (delete_job ex_state 7 ex_employer)"
    by (simp add: succeeds_def delete_job_def dict_get_def ex_state_def)
  have f6: "\<not> succeeds (apply_for_job ex_state 5 ex_apply ex_seeker)"
    by (simp add: succeeds_def apply_for_job_def dict_get_def dict_values_def ex_state_def
          ex_seeker_def ex_apply_def ex_application_def)
  have f7: "\<not> succeeds (review_application ex_state 1 (ex_review ''accepted'') ex_seeker)"
    by (simp add: succeeds_def review_application_def dict_get_def ex_state_def
          ex_application_def ex_job_def ex_seeker_def)
  have f8: "\<not> succeeds (handle ex_library ex_state 5 (ApplyForJob ex_expired_token ex_apply))"
    by (simp add: succeeds_def handle_def depends_current_user_def get_current_user_def
          jwt_decode_def ex_expired_token_def)
  have f9: "\<not> succeeds (handle ex_library ex_state 5 (RegisterJobSeeker ex_bad_email_reg))"
    by (simp add: succeeds_def handle_def JobSeekerRegister_validate_def ex_library_def
          ex_EmailStr_def ex_bad_email_reg_def)
  have f10: "\<not> succeeds (handle ex_library ex_state 5 (RegisterEmployer ex_short_password_reg))"
    by (simp add: succeeds_def handle_def EmployerRegister_validate_def ex_library_def
          ex_EmailStr_def ex_short_password_reg_def)
  have c6: "snd (apply_for_job ex_state 5 ex_apply ex_seeker) = ex_state"
    using failed_call_leaves_state[where st = ex_state and now = 5 and a = ex_apply
        and cu = ex_seeker] f6 by blast
  have l6: "last_app_id (snd (apply_for_job ex_state 5 ex_apply ex_seeker)) = 1"
    unfolding c6 by (simp add: ex_state_def)
  show ?thesis
    using failed_call_leaves_state[where st = ex_state and js = ex_seeker_reg
        and emp = ex_employer_reg and now = 5 and job = ex_job_create and cu = ex_seeker
        and jid = 1 and app_id = 1 and r = "ex_review ''accepted''"
        and lib = ex_library and req = "ApplyForJob ex_expired_token ex_apply"]
      failed_call_leaves_state[where st = ex_state and jid = 7 and cu = ex_employer]
      failed_call_leaves_state[where st = ex_state and now = 5 and lib = ex_library
        and req = "RegisterJobSeeker ex_bad_email_reg"]
      failed_call_leaves_state[where st = ex_state and now = 5 and lib = ex_library
        and req = "RegisterEmployer ex_short_password_reg"]
      f1 f2 f3 f4 f5 f6 f7 f8 f9 f10 c6 l6
    by blast
qed

text \<open>
  C6. Ids come from counters that only grow. A successful \<open>post_job\<close>
  (\<open>apply_for_job\<close>) assigns the counter's value plus one and stores it back; no request
  ever lowers a counter; so an id assigned later is strictly above every id stored
  before, also when that job has been deleted in between. In every reachable state the
  stored ids are distinct and at most the counter.
\<close>

theorem ids_from_growing_counters:
  "(post_job st now job cu = (Inr j, st') \<longrightarrow>
      Job_id j = last_job_id st + 1 \<and> last_job_id st' = last_job_id st + 1 \<and>
      dict_get (jobs st') (Job_id j) = Some j) \<and>
   (apply_for_job st now a cu = (Inr new, st') \<longrightarrow>
      Application_id new = last_app_id st + 1 \<and> last_app_id st' = last_app_id st + 1 \<and>
      dict_get (applications st') (Application_id new) = Some new) \<and>
   last_job_id st \<le> last_job_id (run lib st reqs) \<and>
   last_app_id st \<le> last_app_id (run lib st reqs) \<and>
   (reachable st \<longrightarrow>
      distinct (map Job_id (dict_values (jobs st))) \<and>
      (\<forall>x \<in> set (dict_values (jobs st)). Job_id x \<le> last_job_id st) \<and>
      distinct (map Application_id (dict_values (applications st))) \<and>
      (\<forall>x \<in> set (dict_values (applications st)). Application_id x \<le> last_app_id st)) \<and>
   (reachable st \<and> post_job (run lib st reqs) now job cu = (Inr j, st') \<longrightarrow>
      (\<forall>x \<in> set (dict_values (jobs st)). Job_id x < Job_id j)) \<and>
   (reachable st \<and> apply_for_job (run lib st reqs) now a cu = (Inr new, st') \<longrightarrow>
      (\<forall>x \<in> set (dict_values (applications st)). Application_id x < Application_id new))"
proof -
  have inv: "reachable st \<Longrightarrow>
      distinct (map Job_id (dict_values (jobs st))) \<and>
      (\<forall>x \<in> set (dict_values (jobs st)). Job_id x \<le> last_job_id st) \<and>
      distinct (map Application_id (dict_values (applications st))) \<and>
      (\<forall>x \<in> set (dict_values (applications st)). Application_id x \<le> last_app_id st)"
  proof -
    assume "reachable st"
    then have w: "wf st" by (rule reachable_wf)
    show ?thesis
      using wf_distinct[OF w] wf_job_id_le[OF w] wf_app_id_le[OF w]
      by (simp add: wf_job_ids[OF w] wf_app_ids[OF w])
  qed
  have later_job: "\<forall>x \<in> set (dict_values (jobs st)). Job_id x < Job_id j"
    if "reachable st" "post_job (run lib st reqs) now job cu = (Inr j, st')"
  proof
    fix x assume "x \<in> set (dict_values (jobs st))"
    then have "Job_id x \<le> last_job_id st" using inv[OF that(1)] by blast
    also have "\<dots> \<le> last_job_id (run lib st reqs)" using run_counters_mono by blast
    also have "\<dots> < Job_id j" using post_job_Inr(1)[OF that(2)] by simp
    finally show "Job_id x < Job_id j" .
  qed
  have later_app: "\<forall>x \<in> set (dict_values (applications st)). Application_id x < Application_id new"
    if "reachable st" "apply_for_job (run lib st reqs) now a cu = (Inr new, st')"
  proof
    fix x assume "x \<in> set (dict_values (applications st))"
    then have "Application_id x \<le> last_app_id st" using inv[OF that(1)] by blast
    also have "\<dots> \<le> last_app_id (run lib st reqs)" using run_counters_mono by blast
    also have "\<dots> < Application_id new" using apply_for_job_Inr(1)[OF that(2)] by simp
    finally show "Application_id x < Application_id new" .
  qed
  show ?thesis
    using post_job_Inr[of st now job cu j st'] apply_for_job_Inr[of st now a cu new st']
      run_counters_mono[of st lib reqs] inv later_job later_app
    by blast
qed

theorem ids_from_growing_counters_witness:
  "post_job (run ex_library ex_state [(3, DeleteJob ex_employer_token 1)]) 4 ex_job_create ex_employer =
     (Inr ex_job2, ex_state_reposted) \<and>
   Job_id ex_job2 = last_job_id (run ex_library ex_state [(3, DeleteJob ex_employer_token 1)]) + 1 \<and>
   Job_id ex_job < Job_id ex_job2 \<and>
   Application_id ex_application < Application_id ex_application2 \<and>
   last_job_id ex_state \<le> last_job_id (run ex_library ex_state ex_more_requests) \<and>
   distinct (map Job_id (dict_values (jobs ex_state))) \<and>
   Job_id ex_job \<le> last_job_id ex_state"
proof -
  have del: "run ex_library ex_state [(3, DeleteJob ex_employer_token 1)] = ex_state_job_deleted"
    by code_simp
  have more: "run ex_library ex_state ex_more_requests = ex_state_reposted"
    by code_simp
  have post: "post_job (run ex_library ex_state [(3, DeleteJob ex_employer_token 1)]) 4 ex_job_create
                ex_employer = (Inr ex_job2, ex_state_reposted)"
    unfolding del by code_simp
  have app: "apply_for_job (run ex_library ex_state ex_more_requests) 5 (ex_apply\<lparr>job_id := 2\<rparr>) ex_seeker =
      (Inr ex_application2,
       ex_state_reposted\<lparr>last_app_id := 2,
          applications := [(1, ex_application), (2, ex_application2)]\<rparr>)"
    unfolding more by code_simp
  note i1 = ids_from_growing_counters[where lib = ex_library and st = ex_state
      and reqs = "[(3, DeleteJob ex_employer_token 1)]" and now = 4 and job = ex_job_create
      and cu = ex_employer and j = ex_job2 and st' = ex_state_reposted]
  note i2 = ids_from_growing_counters[where lib = ex_library and st = ex_state
      and reqs = ex_more_requests
      and now = 5 and a = "ex_apply\<lparr>job_id := 2\<rparr>" and cu = ex_seeker
      and new = ex_application2
      and st' = "ex_state_reposted\<lparr>last_app_id := 2,
          applications := [(1, ex_application), (2, ex_application2)]\<rparr>"]
  note i3 = ids_from_growing_counters[where lib = ex_library and
      st = "run ex_library ex_state [(3, DeleteJob ex_employer_token 1)]" and now = 4
      and job = ex_job_create and cu = ex_employer and j = ex_job2 and st' = ex_state_reposted]
  have mem: "ex_job \<in> set (dict_values (jobs ex_state))"
    "ex_application \<in> set (dict_values (applications ex_state))"
    by (simp_all add: ex_state_def dict_values_def)
  show ?thesis
    using i1 i2 i3 post app reachable_ex_state mem by blast
qed




text \<open>
  What \<open>review_application\<close> does with a review that passed its field constraint: 404
  when the application is absent; otherwise 403 when its job is gone or is posted by
  someone else (one and the same error); otherwise it overwrites the stored status with
  the new one whatever the old one was, and touches no other application. The statuses
  \<open>reviewed\<close>, \<open>rejected\<close> and \<open>accepted\<close> pass the field constraint; \<open>pending\<close> does
  not, and the request ends in a validation error.
\<close>

lemma review_application_checks:
  "(dict_get (applications st) app_id = None \<longrightarrow>
      review_application st app_id r cu =
        (Inl (HTTPException 404 ''Application not found''), st)) \<and>
   (dict_get (applications st) app_id = Some a \<and>
    (dict_get (jobs st) (job_id a) = None \<or>
     (\<exists>j. dict_get (jobs st) (job_id a) = Some j \<and> posted_by j \<noteq> u_email cu)) \<longrightarrow>
      review_application st app_id r cu =
        (Inl (HTTPException 403 ''Can only review applications for your jobs''), st)) \<and>
   (dict_get (applications st) app_id = Some a \<and>
    dict_get (jobs st) (job_id a) = Some j \<and> posted_by j = u_email cu \<longrightarrow>
      review_application st app_id r cu =
        (Inr (a\<lparr>status := review_status r\<rparr>),
         st\<lparr>applications :=
              dict_set (applications st) app_id (a\<lparr>status := review_status r\<rparr>)\<rparr>) \<and>
      dict_get (applications (snd (review_application st app_id r cu))) app_id =
        Some (a\<lparr>status := review_status r\<rparr>) \<and>
      (\<forall>k. k \<noteq> app_id \<longrightarrow>
         dict_get (applications (snd (review_application st app_id r cu))) k =
         dict_get (applications st) k)) \<and>
   (review_status r \<in> {''reviewed'', ''rejected'', ''accepted''} \<longrightarrow>
      ApplicationReview_valid r) \<and>
   (review_status r = ''pending'' \<longrightarrow>
      \<not> ApplicationReview_valid r \<and>
      (get_current_user st now token = Inr cu \<longrightarrow>
         handle lib st now (ReviewApplication token app_id r) =
           (Inl RequestValidationError, st)))"
proof -
  have valid: "review_status r \<in> {''reviewed'', ''rejected'', ''accepted''} \<Longrightarrow>
      ApplicationReview_valid r"
    by (auto simp: ApplicationReview_valid_def review_status_regex_def)
  have pending: "review_status r = ''pending'' \<Longrightarrow> \<not> ApplicationReview_valid r"
    by (simp add: ApplicationReview_valid_def review_status_regex_def)
  have handle: "review_status r = ''pending'' \<Longrightarrow> get_current_user st now token = Inr cu \<Longrightarrow>
         handle lib st now (ReviewApplication token app_id r) =
           (Inl RequestValidationError, st)"
    using pending by (simp add: handle_def depends_current_user_def)
  have handler: "(dict_get (applications st) app_id = None \<longrightarrow>
      review_application st app_id r cu =
        (Inl (HTTPException 404 ''Application not found''), st)) \<and>
   (dict_get (applications st) app_id = Some a \<and>
    (dict_get (jobs st) (job_id a) = None \<or>
     (\<exists>j. dict_get (jobs st) (job_id a) = Some j \<and> posted_by j \<noteq> u_email cu)) \<longrightarrow>
      review_application st app_id r cu =
        (Inl (HTTPException 403 ''Can only review applications for your jobs''), st)) \<and>
   (dict_get (applications st) app_id = Some a \<and>
    dict_get (jobs st) (job_id a) = Some j \<and> posted_by j = u_email cu \<longrightarrow>
      review_application st app_id r cu =
        (Inr (a\<lparr>status := review_status r\<rparr>),
         st\<lparr>applications :=
              dict_set (applications st) app_id (a\<lparr>status := review_status r\<rparr>)\<rparr>) \<and>
      dict_get (applications (snd (review_application st app_id r cu))) app_id =
        Some (a\<lparr>status := review_status r\<rparr>) \<and>
      (\<forall>k. k \<noteq> app_id \<longrightarrow>
         dict_get (applications (snd (review_application st app_id r cu))) k =
         dict_get (applications st) k))"
    by (auto simp: review_application_def Let_def dict_get_set)
  show ?thesis using valid pending handle handler by blast
qed

text \<open>
  C3. The new status of a review is meant to be one of \<open>reviewed\<close>, \<open>rejected\<close> and
  \<open>accepted\<close>, and the pattern of \<open>ApplicationReview\<close> is there to refuse anything else.
  It does not: \<open>$\<close> also matches before a final newline, so the owning employer's review
  with the status \<open>accepted\<close> followed by a newline passes the field constraint, and that
  string, which is none of the three, is stored as the application's status.
\<close>

theorem review_status_trailing_newline_stored:
  "ApplicationReview_valid (ex_review (''accepted'' @ [CHR 0x0A])) \<and>
   handle ex_library ex_state 5
     (ReviewApplication ex_employer_token 1 (ex_review (''accepted'' @ [CHR 0x0A]))) =
     (Inr (RespApplication (ex_application\<lparr>status := ''accepted'' @ [CHR 0x0A]\<rparr>)),
      ex_state\<lparr>applications :=
                 [(1, ex_application\<lparr>status := ''accepted'' @ [CHR 0x0A]\<rparr>)]\<rparr>) \<and>
   ''accepted'' @ [CHR 0x0A] \<noteq> ''reviewed'' \<and>
   ''accepted'' @ [CHR 0x0A] \<noteq> ''rejected'' \<and>
   ''accepted'' @ [CHR 0x0A] \<noteq> ''accepted''"
proof -
  have valid: "ApplicationReview_valid (ex_review (''accepted'' @ [CHR 0x0A]))"
    by (simp add: ApplicationReview_valid_def review_status_regex_def ex_review_def)
  have auth: "get_current_user ex_state 5 ex_employer_token = Inr ex_employer"
    by (simp add: get_current_user_def jwt_decode_def ex_employer_token_def
          create_access_token_def ACCESS_TOKEN_EXPIRE_MINUTES_def ex_state_def dict_get_def
          ex_employer_def)
  have review: "review_application ex_state 1 (ex_review (''accepted'' @ [CHR 0x0A])) ex_employer =
     (Inr (ex_application\<lparr>status := ''accepted'' @ [CHR 0x0A]\<rparr>),
      ex_state\<lparr>applications :=
                 [(1, ex_application\<lparr>status := ''accepted'' @ [CHR 0x0A]\<rparr>)]\<rparr>)"
    by (simp add: review_application_def ex_state_def dict_get_def ex_application_def
          ex_job_def ex_employer_def ex_review_def Let_def)
  have "handle ex_library ex_state 5
     (ReviewApplication ex_employer_token 1 (ex_review (''accepted'' @ [CHR 0x0A]))) =
     (Inr (RespApplication (ex_application\<lparr>status := ''accepted'' @ [CHR 0x0A]\<rparr>)),
      ex_state\<lparr>applications :=
                 [(1, ex_application\<lparr>status := ''accepted'' @ [CHR 0x0A]\<rparr>)]\<rparr>)"
    using valid review by (simp add: handle_def depends_current_user_def auth respond_def)
  then show ?thesis using valid by simp
qed

text \<open>
  C5. \<open>list_jobs\<close> returns, in catalog order, exactly the jobs that pass every filter
  given: the lowered query is a substring of the lowered title followed directly by the
  lowered description; the location equals the stored one up to case; every requested skill
  equals some stored skill up to case. A location given as the empty string counts as not
  given. With no filter every job is returned, and the state is not touched. This holds
  whatever \<open>str.lower()\<close> computes, as long as it maps the empty string to itself.
\<close>

theorem list_jobs_filters:
  "lower [] = [] \<longrightarrow>
   list_jobs lower st query loc sks =
     (Inr (filter (satisfies_provided_filters lower query
                     (if loc = Some [] then None else loc) sks)
             (dict_values (jobs st))), st) \<and>
   list_jobs lower st None None None = (Inr (dict_values (jobs st)), st)"
proof
  assume e: "lower [] = []"
  have "job_match lower query loc sks =
        satisfies_provided_filters lower query (if loc = Some [] then None else loc) sks"
    by (rule ext) (rule job_match_spec[of lower, OF e])
  moreover have "job_match lower None None None = (\<lambda>job. True)"
    by (rule ext) (simp add: job_match_def)
  ultimately show "list_jobs lower st query loc sks =
     (Inr (filter (satisfies_provided_filters lower query
                     (if loc = Some [] then None else loc) sks)
             (dict_values (jobs st))), st) \<and>
   list_jobs lower st None None None = (Inr (dict_values (jobs st)), st)"
    by (simp add: list_jobs_def list_jobs_loop_filter)
qed

theorem list_jobs_filters_witness:
  "list_jobs ascii_lower ex_state (Some ''RGO'') (Some ''remote'') (Some [''GO'']) =
     (Inr [ex_job], ex_state) \<and>
   list_jobs ascii_lower ex_state None (Some ''Berlin'') None = (Inr [], ex_state) \<and>
   list_jobs ascii_lower ex_state None (Some []) None = (Inr [ex_job], ex_state)"
proof -
  have e: "ascii_lower [] = []" by (simp add: ascii_lower_def)
  have vals: "dict_values (jobs ex_state) = [ex_job]"
    by (simp add: ex_state_def dict_values_def)
  have p1: "satisfies_provided_filters ascii_lower (Some ''RGO'') (Some ''remote'')
              (Some [''GO'']) ex_job"
    by (simp add: satisfies_provided_filters_def str_in_def ascii_lower_def
          ascii_lower_char_def ex_job_def sublist_code)
  have p2: "\<not> satisfies_provided_filters ascii_lower None (Some ''Berlin'') None ex_job"
    by (simp add: satisfies_provided_filters_def ascii_lower_def ascii_lower_char_def
          ex_job_def)
  have p3: "satisfies_provided_filters ascii_lower None None None ex_job"
    by (simp add: satisfies_provided_filters_def)
  show ?thesis
    using list_jobs_filters[of ascii_lower ex_state "Some ''RGO''" "Some ''remote''"
        "Some [''GO'']"]
      list_jobs_filters[of ascii_lower ex_state None "Some ''Berlin''" None]
      list_jobs_filters[of ascii_lower ex_state None "Some []" None]
      e p1 p2 p3
    by (simp add: vals)
qed

theorem list_jobs_empty_location_counterexample:
  "fst (list_jobs ascii_lower ex_state None (Some []) None) \<noteq>
     Inr (filter (satisfies_provided_filters ascii_lower None (Some []) None)
            (dict_values (jobs ex_state)))"
  by (simp add: list_jobs_def job_match_def satisfies_provided_filters_def ex_state_def
        dict_values_def ex_job_def ascii_lower_def)





text \<open>
  C2. With a token that resolves to a user \<open>cu\<close> (so the token's role claim is the
  user's role): posting a job and the employer dashboard answer 403 unless the role is
  \<open>employer\<close>; listing one's applications and the job seeker dashboard answer 403 unless
  the role is \<open>jobseeker\<close>, and so does applying when the body passes its field
  constraint. Updating or deleting a job, listing a job's applications and reviewing an
  application test the owner of the job, not the role: in a reachable state a user who is
  not an employer owns no job, so these answer 404 when the job (for a review with a status
  that passes the pattern, the application) does not exist, and 403 otherwise. A body that
  violates a field constraint, a malformed \<open>seeker_email\<close> or a status outside the
  pattern, ends the request in a validation error before any of these checks.
\<close>

theorem wrong_role_is_refused:
  "(get_current_user st now token = Inr cu \<longrightarrow> access_token_role token = Some (u_role cu)) \<and>
   (get_current_user st now token = Inr cu \<and> access_token_role token \<noteq> Some ''employer'' \<longrightarrow>
      fails_with (handle lib st now (PostJob token job)) 403 \<and>
      fails_with (handle lib st now (EmployerDashboardReq token)) 403) \<and>
   (get_current_user st now token = Inr cu \<and> access_token_role token \<noteq> Some ''jobseeker'' \<longrightarrow>
      fails_with (handle lib st now (MyApplications token)) 403 \<and>
      fails_with (handle lib st now (JobseekerDashboardReq token)) 403 \<and>
      (ApplicationBase_validate lib a \<noteq> None \<longrightarrow>
         fails_with (handle lib st now (ApplyForJob token a)) 403)) \<and>
   (get_current_user st now token = Inr cu \<and> ApplicationBase_validate lib a = None \<longrightarrow>
      handle lib st now (ApplyForJob token a) = (Inl RequestValidationError, st)) \<and>
   (get_current_user st now token = Inr cu \<and> \<not> ApplicationReview_valid r \<longrightarrow>
      handle lib st now (ReviewApplication token app_id r) = (Inl RequestValidationError, st)) \<and>
   (reachable st \<and> get_current_user st now token = Inr cu \<and>
    access_token_role token \<noteq> Some ''employer'' \<longrightarrow>
      fails_with (handle lib st now (UpdateJob token jid job))
        (if dict_contains (jobs st) jid then 403 else 404) \<and>
      fails_with (handle lib st now (DeleteJob token jid))
        (if dict_contains (jobs st) jid then 403 else 404) \<and>
      fails_with (handle lib st now (ApplicationsForJob token jid))
        (if dict_contains (jobs st) jid then 403 else 404) \<and>
      (ApplicationReview_valid r \<longrightarrow>
         fails_with (handle lib st now (ReviewApplication token app_id r))
           (if dict_contains (applications st) app_id then 403 else 404)))"
proof -
  have role: "access_token_role token = Some (u_role cu)"
    if "get_current_user st now token = Inr cu"
    using that by (rule get_current_user_Inr(2))
  have emp: "fails_with (handle lib st now (PostJob token job)) 403 \<and>
      fails_with (handle lib st now (EmployerDashboardReq token)) 403"
    if "get_current_user st now token = Inr cu" "access_token_role token \<noteq> Some ''employer''"
    using that role[OF that(1)]
    by (simp add: handle_def depends_current_user_def fails_with_respond fails_with_simps
          post_job_def employer_dashboard_def)
  have js: "fails_with (handle lib st now (MyApplications token)) 403 \<and>
      fails_with (handle lib st now (JobseekerDashboardReq token)) 403 \<and>
      (ApplicationBase_validate lib a \<noteq> None \<longrightarrow>
         fails_with (handle lib st now (ApplyForJob token a)) 403)"
    if "get_current_user st now token = Inr cu" "access_token_role token \<noteq> Some ''jobseeker''"
    using that role[OF that(1)]
    by (auto simp: handle_def depends_current_user_def fails_with_respond fails_with_simps
          apply_for_job_def my_applications_def jobseeker_dashboard_def)
  have bad_apply: "handle lib st now (ApplyForJob token a) = (Inl RequestValidationError, st)"
    if "get_current_user st now token = Inr cu" "ApplicationBase_validate lib a = None"
    using that by (simp add: handle_def depends_current_user_def)
  have bad_review:
    "handle lib st now (ReviewApplication token app_id r) = (Inl RequestValidationError, st)"
    if "get_current_user st now token = Inr cu" "\<not> ApplicationReview_valid r"
    using that by (simp add: handle_def depends_current_user_def)
  have own: "fails_with (handle lib st now (UpdateJob token jid job))
        (if dict_contains (jobs st) jid then 403 else 404) \<and>
      fails_with (handle lib st now (DeleteJob token jid))
        (if dict_contains (jobs st) jid then 403 else 404) \<and>
      fails_with (handle lib st now (ApplicationsForJob token jid))
        (if dict_contains (jobs st) jid then 403 else 404) \<and>
      (ApplicationReview_valid r \<longrightarrow>
         fails_with (handle lib st now (ReviewApplication token app_id r))
           (if dict_contains (applications st) app_id then 403 else 404))"
    if "reachable st" "get_current_user st now token = Inr cu"
      "access_token_role token \<noteq> Some ''employer''"
  proof -
    have w: "wf st" using that(1) by (rule reachable_wf)
    have cu: "dict_get (users st) (u_email cu) = Some cu"
      using w that(2) by (rule get_current_user_wf)
    have r: "u_role cu \<noteq> ''employer''" using role[OF that(2)] that(3) by simp
    have no: "\<And>k j. dict_get (jobs st) k = Some j \<Longrightarrow> posted_by j \<noteq> u_email cu"
      using not_employer_not_owner[OF w cu r] by blast
    show ?thesis
      using that(2) no
      by (auto simp: handle_def depends_current_user_def fails_with_respond fails_with_simps
            update_job_def delete_job_def applications_for_job_def review_application_def
            dict_contains_def
          split: option.splits)
  qed
  show ?thesis using role emp js bad_apply bad_review own by blast
qed

theorem wrong_role_is_refused_witness:
  "fails_with (handle ex_library ex_state 5 (PostJob ex_seeker_token ex_job_create)) 403 \<and>
   fails_with (handle ex_library ex_state 5 (EmployerDashboardReq ex_seeker_token)) 403 \<and>
   fails_with (handle ex_library ex_state 5 (ApplyForJob ex_employer_token ex_apply)) 403 \<and>
   fails_with (handle ex_library ex_state 5 (MyApplications ex_employer_token)) 403 \<and>
   fails_with (handle ex_library ex_state 5 (JobseekerDashboardReq ex_employer_token)) 403 \<and>
   handle ex_library ex_state 5
     (ApplyForJob ex_employer_token (ex_apply\<lparr>seeker_email := ''not-an-email''\<rparr>)) =
     (Inl RequestValidationError, ex_state) \<and>
   handle ex_library ex_state 5 (ReviewApplication ex_seeker_token 1 (ex_review ''pending'')) =
     (Inl RequestValidationError, ex_state) \<and>
   fails_with (handle ex_library ex_state 5 (UpdateJob ex_seeker_token 1 ex_update)) 403 \<and>
   fails_with (handle ex_library ex_state 5 (DeleteJob ex_seeker_token 7)) 404 \<and>
   fails_with (handle ex_library ex_state 5 (ApplicationsForJob ex_seeker_token 1)) 403 \<and>
   fails_with (handle ex_library ex_state 5
     (ReviewApplication ex_seeker_token 1 (ex_review ''accepted''))) 403"
proof -
  have a1: "get_current_user ex_state 5 ex_seeker_token = Inr ex_seeker"
    and a2: "get_current_user ex_state 5 ex_employer_token = Inr ex_employer"
    by (simp_all add: get_current_user_def jwt_decode_def ex_seeker_token_def
          ex_employer_token_def create_access_token_def ACCESS_TOKEN_EXPIRE_MINUTES_def
          ex_state_def dict_get_def ex_seeker_def ex_employer_def)
  have r1: "access_token_role ex_seeker_token \<noteq> Some ''employer''"
    and r2: "access_token_role ex_employer_token \<noteq> Some ''jobseeker''"
    by (simp_all add: ex_seeker_token_def ex_employer_token_def create_access_token_def)
  have c: "dict_contains (jobs ex_state) 1" "\<not> dict_contains (jobs ex_state) 7"
    "dict_contains (applications ex_state) 1"
    by (simp_all add: dict_contains_def dict_get_def ex_state_def)
  have v: "ApplicationReview_valid (ex_review ''accepted'')"
    "\<not> ApplicationReview_valid (ex_review ''pending'')"
    by (simp_all add: ApplicationReview_valid_def review_status_regex_def ex_review_def)
  have e: "ApplicationBase_validate ex_library ex_apply \<noteq> None"
    "ApplicationBase_validate ex_library (ex_apply\<lparr>seeker_email := ''not-an-email''\<rparr>) = None"
    by (simp_all add: ApplicationBase_validate_def ex_library_def ex_EmailStr_def ex_apply_def)
  show ?thesis
    using wrong_role_is_refused[where lib = ex_library and st = ex_state and now = 5
        and token = ex_seeker_token and cu = ex_seeker and job = ex_job_create and jid = 1
        and r = "ex_review ''pending''" and app_id = 1]
      wrong_role_is_refused[where lib = ex_library and st = ex_state and now = 5
        and token = ex_seeker_token and cu = ex_seeker and job = ex_update and jid = 1
        and app_id = 1 and r = "ex_review ''accepted''"]
      wrong_role_is_refused[where lib = ex_library and st = ex_state and now = 5
        and token = ex_seeker_token and cu = ex_seeker and jid = 7]
      wrong_role_is_refused[where lib = ex_library and st = ex_state and now = 5
        and token = ex_employer_token and cu = ex_employer and a = ex_apply]
      wrong_role_is_refused[where lib = ex_library and st = ex_state and now = 5
        and token = ex_employer_token and cu = ex_employer
        and a = "ex_apply\<lparr>seeker_email := ''not-an-email''\<rparr>"]
      a1 a2 r1 r2 c v e reachable_ex_state
    by simp
qed

theorem wrong_role_not_found_counterexample:
  "reachable ex_state \<and>
   get_current_user ex_state 5 ex_seeker_token = Inr ex_seeker \<and>
   access_token_role ex_seeker_token \<noteq> Some ''employer'' \<and>
   handle ex_library ex_state 5 (UpdateJob ex_seeker_token 7 ex_update) =
     (Inl (HTTPException 404 ''Job not found''), ex_state) \<and>
   \<not> fails_with (handle ex_library ex_state 5 (UpdateJob ex_seeker_token 7 ex_update)) 403"
proof -
  have a1: "get_current_user ex_state 5 ex_seeker_token = Inr ex_seeker"
    by (simp add: get_current_user_def jwt_decode_def ex_seeker_token_def
          create_access_token_def ACCESS_TOKEN_EXPIRE_MINUTES_def
          ex_state_def dict_get_def ex_seeker_def)
  have r1: "access_token_role ex_seeker_token \<noteq> Some ''employer''"
    by (simp add: ex_seeker_token_def create_access_token_def)
  have h: "handle ex_library ex_state 5 (UpdateJob ex_seeker_token 7 ex_update) =
     (Inl (HTTPException 404 ''Job not found''), ex_state)"
    using a1 by (simp add: handle_def depends_current_user_def respond_def update_job_def
          dict_get_def ex_state_def)
  show ?thesis
    using reachable_ex_state a1 r1 h by (simp add: fails_with_def)
qed

end
